theory Spec2Isabelle
  imports Complex_Main "HOL-Library.Word"
begin

unbundle bit_operations_syntax

section \<open>Machine types\<close>

text \<open>
  The firmware runs on an ESP32 (ILP32): \<open>uint8_t\<close>, \<open>uint16_t\<close>, \<open>uint32_t\<close> and
  \<open>unsigned long\<close> are words that wrap around. A C \<open>int\<close> is modelled as an unbounded
  \<open>int\<close>: every \<open>int\<close> of the modelled code is a small counter or the result of \<open>atoi\<close> on
  a token of at most 127 characters. A \<open>double\<close> or \<open>float\<close> is modelled by the rational it
  denotes, with exact arithmetic: NaN, infinities and binary rounding are outside the model.
\<close>

type_synonym u8 = "8 word"
type_synonym u16 = "16 word"
type_synonym u32 = "32 word"
type_synonym u64 = "64 word"
type_synonym double = rat

section \<open>C library functions on strings\<close>

text \<open>
  A C string is a \<open>string\<close> without its terminating NUL. \<open>strtok\<close> keeps a pointer into
  the buffer between calls; the model passes the unread rest of the buffer explicitly.
  \<open>strtok\<close> first skips every leading delimiter, so it never returns an empty token and
  two adjacent delimiters count as one.
\<close>

definition strncpy127 :: "string \<Rightarrow> string" where
  \<comment> \<open>\<open>strncpy(buffer, sentence, 127); buffer[127] = 0\<close>\<close>
  "strncpy127 s = take 127 s"

definition strtok :: "string \<Rightarrow> string \<Rightarrow> string option \<times> string" where
  "strtok delims s =
     (let s1 = dropWhile (\<lambda>c. c \<in> set delims) s in
      if s1 = [] then (None, [])
      else (Some (takeWhile (\<lambda>c. c \<notin> set delims) s1),
            drop 1 (dropWhile (\<lambda>c. c \<notin> set delims) s1)))"

definition isspace :: "char \<Rightarrow> bool" where
  "isspace c = (c = CHR '' '' \<or> (9 :: nat) \<le> of_char c \<and> of_char c \<le> (13 :: nat))"

definition isdigit :: "char \<Rightarrow> bool" where
  "isdigit c = ((48 :: nat) \<le> of_char c \<and> of_char c \<le> (57 :: nat))"

definition digit_val :: "char \<Rightarrow> int" where
  "digit_val c = int (of_char c) - 48"

text \<open>
  \<open>atoi\<close> on a token whose value fits an \<open>int\<close>. A digit string beyond \<open>INT_MAX\<close>, where
  the C function has no defined result, is outside the model, which returns the number the
  digits denote.
\<close>

fun digits_int :: "int \<Rightarrow> string \<Rightarrow> int" where
  "digits_int acc [] = acc"
| "digits_int acc (c # cs) = (if isdigit c then digits_int (10 * acc + digit_val c) cs else acc)"

definition atoi :: "string \<Rightarrow> int" where
  "atoi s =
     (case dropWhile isspace s of
        [] \<Rightarrow> 0
      | c # cs \<Rightarrow>
          if c = CHR ''-'' then - digits_int 0 cs
          else if c = CHR ''+'' then digits_int 0 cs
          else digits_int 0 (c # cs))"

text \<open>
  \<open>atof\<close> on the decimal notation NMEA uses (sign, digits, optional point and digits);
  exponents, hexadecimal notation, \<open>inf\<close> and \<open>nan\<close> are outside the model.
\<close>

fun frac_digits :: "rat \<Rightarrow> rat \<Rightarrow> string \<Rightarrow> rat" where
  "frac_digits acc scale [] = acc"
| "frac_digits acc scale (c # cs) =
     (if isdigit c then frac_digits (acc + of_int (digit_val c) * scale / 10) (scale / 10) cs
      else acc)"

definition unsigned_decimal :: "string \<Rightarrow> rat" where
  "unsigned_decimal s =
     (let ip = of_int (digits_int 0 s) in
      case dropWhile isdigit s of
        [] \<Rightarrow> ip
      | c # cs \<Rightarrow> if c = CHR ''.'' then frac_digits ip 1 cs else ip)"

definition atof :: "string \<Rightarrow> double" where
  "atof s =
     (case dropWhile isspace s of
        [] \<Rightarrow> 0
      | c # cs \<Rightarrow>
          if c = CHR ''-'' then - unsigned_decimal cs
          else if c = CHR ''+'' then unsigned_decimal cs
          else unsigned_decimal (c # cs))"

fun indexOf_found :: "string \<Rightarrow> string \<Rightarrow> bool" where
  \<comment> \<open>\<open>sentence.indexOf(pat) >= 0\<close>\<close>
  "indexOf_found [] pat = (pat = [])"
| "indexOf_found (c # cs) pat = (take (length pat) (c # cs) = pat \<or> indexOf_found cs pat)"

fun first_index :: "('a \<Rightarrow> bool) \<Rightarrow> 'a list \<Rightarrow> nat option" where
  \<comment> \<open>the index at which an ascending \<open>for\<close> loop with \<open>break\<close> stops\<close>
  "first_index P [] = None"
| "first_index P (x # xs) = (if P x then Some 0 else map_option Suc (first_index P xs))"

section \<open>GPS.h: data structures\<close>

datatype EventType =
    EVENT_GPS_FIX_ACQUIRED
  | EVENT_GPS_FIX_LOST
  | EVENT_LOW_SATELLITE_COUNT
  | EVENT_HIGH_HDOP
  | EVENT_HIGH_PDOP
  | EVENT_GPS_TIMEOUT
  | EVENT_GPS_UNRESPONSIVE
  | EVENT_NETWORK_CONNECTED
  | EVENT_NETWORK_DISCONNECTED
  | EVENT_CONFIG_SAVED
  | EVENT_NTP_SERVING_STARTED
  | EVENT_SYSTEM_BOOT

text \<open>
  A message built by \<open>strcpy\<close> is kept as its text; one built by \<open>snprintf\<close> is kept as
  its format (the constructor) and its argument.
\<close>

datatype Message =
    Text string
  | LowSatelliteCount int
  | HighHDOP double
  | HighPDOP double
  | LowSignalStrength double

record GPSConfig =
  gpsModuleType :: string
  gpgsvEnabled :: bool
  gpgsaEnabled :: bool
  configurationComplete :: bool
  lastConfigCheck :: u32
  updateRate :: u8

record GPSData =
  timeValid :: bool
  hour :: u8
  minute :: u8
  second :: u8
  centisecond :: u16
  day :: u8
  month :: u8
  year :: u16
  unixTime :: u32
  lockAcquiredTime :: u32
  lockAcquiredFraction :: u16
  hadPreviousFix :: bool
  valid :: bool
  latitude :: double
  longitude :: double
  altitude :: double
  speed :: double
  course :: double
  satellites :: int
  hdop :: double
  pdop :: double
  vdop :: double
  fixQuality :: u8
  fixMode :: u8
  lastUpdateMillis :: u32
  updateAge :: u32
  charsProcessed :: u32
  sentencesFailed :: u32
  totalSentences :: u32
  lastValidSentence :: string

record SatelliteInfo =
  prn :: u8
  constellation :: u8
  elevation :: u8
  azimuth :: u16
  snr :: u8
  inUse :: bool
  tracked :: bool

text \<open>
  \<open>sats\<close> is the array \<open>satellites[MAX_SATELLITES]\<close> (a list of 32 entries) and
  \<open>count\<close> the number of slots in use at its front.
\<close>

record SatelliteTracking =
  sats :: "SatelliteInfo list"
  count :: nat
  lastUpdate :: u32
  gpsCount :: int
  glonassCount :: int
  galileoCount :: int
  beidouCount :: int
  qzssCount :: int
  totalInUse :: int

record HistoricalDataPoint =
  hp_timestamp :: u32
  hp_satelliteCount :: u8
  hp_hdop :: double
  hp_pdop :: double
  hp_fixQuality :: u8
  hp_fixMode :: u8
  hp_avgSNR :: double
  hp_hasValidFix :: bool

record HistoricalData =
  points :: "HistoricalDataPoint list"
  hist_head :: nat
  hist_count :: nat
  lastRecordTime :: u32

record SystemEvent =
  ev_type :: EventType
  ev_timestamp :: u32
  ev_message :: Message

record EventLog =
  events :: "SystemEvent list"
  log_head :: nat
  log_count :: nat

record SystemHealth =
  overallScore :: u8
  gpsScore :: u8
  satelliteScore :: u8
  hdopScore :: u8
  snrScore :: u8
  fixAgeScore :: u8
  fixModeScore :: u8
  criticalAlert :: bool
  warningAlert :: bool
  alertMessage :: Message
  lastCalculation :: u32

record AlertThresholds =
  minSatellites :: u8
  maxHDOP :: double
  maxPDOP :: double
  maxFixAge :: u32
  minUptime :: u32
  minAvgSNR :: double

record WatchdogState =
  lastCharReceived :: u32
  lastEventTime :: "EventType \<Rightarrow> u32"
  unresponsive :: bool

text \<open>
  What the accessors of the TinyGPS++ decoder (an external library) return when
  \<open>updateGPSData\<close> reads them.
\<close>

record TinyGPS =
  tiny_charsProcessed :: u32
  tiny_failedChecksum :: u32
  tiny_passedChecksum :: u32
  time_isValid :: bool
  date_isValid :: bool
  time_hour :: u8
  time_minute :: u8
  time_second :: u8
  time_centisecond :: u8
  date_day :: u8
  date_month :: u8
  date_year :: u16
  location_isValid :: bool
  location_lat :: double
  location_lng :: double
  altitude_isValid :: bool
  altitude_meters :: double
  speed_isValid :: bool
  speed_kmph :: double
  course_isValid :: bool
  course_deg :: double
  hdop_isValid :: bool
  hdop_hdop :: double

record GPS =
  config :: GPSConfig
  gpsData :: GPSData
  satTracking :: SatelliteTracking
  history :: HistoricalData
  eventLog :: EventLog
  health :: SystemHealth
  thresholds :: AlertThresholds
  watchdog :: WatchdogState
  gpsBuffer :: string
  gpsLineReady :: bool

definition MAX_SATELLITES :: nat where "MAX_SATELLITES = 32"
definition HISTORY_BUFFER_SIZE :: nat where "HISTORY_BUFFER_SIZE = 60"
definition MAX_EVENTS :: nat where "MAX_EVENTS = 50"
definition GPS_BUFFER_MAX :: nat where "GPS_BUFFER_MAX = 120"
definition GPS_DATA_TIMEOUT :: u32 where "GPS_DATA_TIMEOUT = 10000"
definition GPS_HEARTBEAT_TIMEOUT :: u32 where "GPS_HEARTBEAT_TIMEOUT = 10000"
definition EVENT_COOLDOWN :: u32 where "EVENT_COOLDOWN = 60000"
definition HISTORY_INTERVAL :: u32 where "HISTORY_INTERVAL = 10000"

section \<open>GPS.h: event log\<close>

text \<open>
  Every function that calls \<open>millis()\<close> takes the reading as its argument \<open>now\<close>. One
  call of \<open>process\<close> is modelled at a single reading of the millisecond clock.
\<close>

definition shouldFireEvent :: "u32 \<Rightarrow> EventType \<Rightarrow> GPS \<Rightarrow> bool \<times> GPS" where
  "shouldFireEvent now ty g =
     (if now - lastEventTime (watchdog g) ty < EVENT_COOLDOWN then (False, g)
      else (True, g\<lparr>watchdog := (watchdog g)\<lparr>lastEventTime :=
                        (lastEventTime (watchdog g))(ty := now)\<rparr>\<rparr>))"

definition strncpy63 :: "Message \<Rightarrow> Message" where
  \<comment> \<open>\<open>strncpy(event.message, message, 63)\<close>; a formatted message was cut by \<open>snprintf\<close> already\<close>
  "strncpy63 m = (case m of Text s \<Rightarrow> Text (take 63 s) | _ \<Rightarrow> m)"

definition addEvent :: "u32 \<Rightarrow> EventType \<Rightarrow> Message \<Rightarrow> GPS \<Rightarrow> GPS" where
  "addEvent now ty msg g =
     (let l = eventLog g;
          l1 = l\<lparr>events := (events l)[log_head l :=
                 \<lparr>ev_type = ty, ev_timestamp = now, ev_message = strncpy63 msg\<rparr>]\<rparr>;
          l2 = l1\<lparr>log_head := (log_head l1 + 1) mod MAX_EVENTS\<rparr>;
          l3 = (if log_count l2 < MAX_EVENTS then l2\<lparr>log_count := log_count l2 + 1\<rparr> else l2)
      in g\<lparr>eventLog := l3\<rparr>)"

definition fireEvent :: "u32 \<Rightarrow> EventType \<Rightarrow> Message \<Rightarrow> GPS \<Rightarrow> GPS" where
  \<comment> \<open>the right half of \<open>if (c && shouldFireEvent(t)) addEvent(t, m)\<close>, once \<open>c\<close> holds\<close>
  "fireEvent now ty msg g =
     (case shouldFireEvent now ty g of
        (True, g1) \<Rightarrow> addEvent now ty msg g1
      | (False, g1) \<Rightarrow> g1)"

section \<open>GPS.h: the satellite table and the sentence parser\<close>

definition clearSatelliteTracking :: "GPS \<Rightarrow> GPS" where
  "clearSatelliteTracking g =
     g\<lparr>satTracking := (satTracking g)\<lparr>
          count := 0, gpsCount := 0, glonassCount := 0, galileoCount := 0,
          beidouCount := 0, qzssCount := 0, totalInUse := 0,
          sats := map (\<lambda>s. s\<lparr>tracked := False\<rparr>) (take MAX_SATELLITES (sats (satTracking g)))
                  @ drop MAX_SATELLITES (sats (satTracking g))\<rparr>\<rparr>"

definition cleanupStaleSatellites :: "u32 \<Rightarrow> GPS \<Rightarrow> GPS" where
  "cleanupStaleSatellites now g =
     (if now - lastUpdate (satTracking g) > 30000 then clearSatelliteTracking g else g)"

definition detectConstellationFromPRN :: "int \<Rightarrow> u8" where
  "detectConstellationFromPRN p =
     (if p \<ge> 1 \<and> p \<le> 32 then 1
      else if p \<ge> 65 \<and> p \<le> 96 then 2
      else if p \<ge> 193 \<and> p \<le> 202 then 5
      else if p \<ge> 301 \<and> p \<le> 336 then 3
      else if p \<ge> 401 \<and> p \<le> 437 then 4
      else 1)"

text \<open>
  The table is searched by \<open>satellites[i].prn == prn\<close>: the stored \<open>uint8_t\<close> is promoted
  to \<open>int\<close> and compared with the \<open>int\<close> that \<open>atoi\<close> returned.
\<close>

definition findByPRN :: "SatelliteTracking \<Rightarrow> int \<Rightarrow> nat option" where
  "findByPRN t p = first_index (\<lambda>s. uint (prn s) = p) (take (count t) (sats t))"

definition findFreeSlot :: "SatelliteTracking \<Rightarrow> nat option" where
  "findFreeSlot t = first_index (\<lambda>s. \<not> tracked s) (take MAX_SATELLITES (sats t))"

definition writeVisible :: "nat \<Rightarrow> int \<Rightarrow> int \<Rightarrow> int \<Rightarrow> int \<Rightarrow> SatelliteTracking \<Rightarrow> SatelliteTracking" where
  "writeVisible i p el az sn t =
     t\<lparr>sats := (sats t)[i := (sats t ! i)\<lparr>
          prn := word_of_int p, constellation := 0, elevation := word_of_int el,
          azimuth := word_of_int az, snr := word_of_int sn,
          tracked := True, inUse := False\<rparr>]\<rparr>"

definition storeVisible :: "int \<Rightarrow> int \<Rightarrow> int \<Rightarrow> int \<Rightarrow> SatelliteTracking \<Rightarrow> SatelliteTracking" where
  \<comment> \<open>the slot search and the write at the end of one round of the loop of \<open>parseGSVSentence\<close>\<close>
  "storeVisible p el az sn t =
     (case findByPRN t p of
        Some i \<Rightarrow> writeVisible i p el az sn t
      | None \<Rightarrow>
          (case findFreeSlot t of
             None \<Rightarrow> t
           | Some i \<Rightarrow> writeVisible i p el az sn (if count t \<le> i then t\<lparr>count := i + 1\<rparr> else t)))"

definition atoi_or_0 :: "string \<Rightarrow> int" where
  \<comment> \<open>\<open>(strlen(token) > 0) ? atoi(token) : 0\<close>\<close>
  "atoi_or_0 tok = (if length tok > 0 then atoi tok else 0)"

fun gsvSatellites :: "nat \<Rightarrow> string \<Rightarrow> SatelliteTracking \<Rightarrow> SatelliteTracking" where
  \<comment> \<open>the loop \<open>for (satIndex = 0; satIndex < 4; satIndex++)\<close>, by rounds left\<close>
  "gsvSatellites 0 rest t = t"
| "gsvSatellites (Suc n) rest t =
     (case strtok '','' rest of
        (None, r1) \<Rightarrow> t
      | (Some tokP, r1) \<Rightarrow>
          if length tokP = 0 then t
          else if atoi tokP = 0 then t
          else
            (case strtok '','' r1 of
               (None, r2) \<Rightarrow> t
             | (Some tokE, r2) \<Rightarrow>
                 (case strtok '','' r2 of
                    (None, r3) \<Rightarrow> t
                  | (Some tokA, r3) \<Rightarrow>
                      (case strtok '',*'' r3 of
                         (None, r4) \<Rightarrow> t
                       | (Some tokS, r4) \<Rightarrow>
                           gsvSatellites n r4
                             (storeVisible (atoi tokP) (atoi_or_0 tokE) (atoi_or_0 tokA)
                                (atoi_or_0 tokS) t)))))"

definition parseGSVSentence :: "u32 \<Rightarrow> string \<Rightarrow> u8 \<Rightarrow> GPS \<Rightarrow> GPS" where
  "parseGSVSentence now sentence constellationType g =
     (case strtok '','' (strncpy127 sentence) of
        (None, r1) \<Rightarrow> g
      | (Some tok0, r1) \<Rightarrow>
          (case strtok '','' r1 of
             (None, r2) \<Rightarrow> g
           | (Some totalMessages, r2) \<Rightarrow>
               (case strtok '','' r2 of
                  (None, r3) \<Rightarrow> g
                | (Some messageNumber, r3) \<Rightarrow>
                    (case strtok '','' r3 of
                       (None, r4) \<Rightarrow> g
                     | (Some totalSats, r4) \<Rightarrow>
                         g\<lparr>satTracking :=
                             (gsvSatellites 4 r4 (satTracking g))\<lparr>lastUpdate := now\<rparr>\<rparr>))))"

definition parseGNGSVSentence :: "u32 \<Rightarrow> string \<Rightarrow> GPS \<Rightarrow> GPS" where
  "parseGNGSVSentence now sentence g =
     (case strtok '','' (strncpy127 sentence) of
        (None, r1) \<Rightarrow> g
      | (Some tok0, r1) \<Rightarrow>
          (let r2 = snd (strtok '','' r1);
               r3 = snd (strtok '','' r2);
               r4 = snd (strtok '','' r3)
           in case fst (strtok '','' r4) of
                None \<Rightarrow> g
              | Some tok \<Rightarrow>
                  if length tok > 0
                  then parseGSVSentence now sentence (detectConstellationFromPRN (atoi tok)) g
                  else g))"

definition markInUse :: "int \<Rightarrow> u8 \<Rightarrow> SatelliteTracking \<Rightarrow> SatelliteTracking" where
  \<comment> \<open>the body of the loop of \<open>markSatellitesInUse\<close> for one identifier\<close>
  "markInUse p constellationType t =
     (case findByPRN t p of
        Some j \<Rightarrow>
          t\<lparr>sats := (sats t)[j := (sats t ! j)\<lparr>
               inUse := True, constellation := constellationType, tracked := True\<rparr>]\<rparr>
      | None \<Rightarrow>
          if count t < MAX_SATELLITES
          then t\<lparr>sats := (sats t)[count t := (sats t ! count t)\<lparr>
                    prn := word_of_int p, constellation := constellationType,
                    inUse := True, tracked := True, elevation := 0, azimuth := 0, snr := 0\<rparr>],
                  count := count t + 1\<rparr>
          else t)"

fun gsaSatellites :: "nat \<Rightarrow> u8 \<Rightarrow> string \<Rightarrow> SatelliteTracking \<Rightarrow> SatelliteTracking \<times> string" where
  \<comment> \<open>the loop \<open>for (i = 0; i < 12; i++)\<close>, by rounds left; it returns the unread rest too\<close>
  "gsaSatellites 0 c rest t = (t, rest)"
| "gsaSatellites (Suc n) c rest t =
     (case strtok '',*'' rest of
        (None, r) \<Rightarrow> gsaSatellites n c r t
      | (Some tok, r) \<Rightarrow>
          if length tok = 0 then gsaSatellites n c r t
          else if atoi tok = 0 then gsaSatellites n c r t
          else gsaSatellites n c r (markInUse (atoi tok) c t))"

definition readDOP :: "string \<Rightarrow> double \<Rightarrow> double \<times> string" where
  \<comment> \<open>\<open>token = strtok(NULL, ",*"); if (token && strlen(token) > 0) x = atof(token)\<close>\<close>
  "readDOP rest x =
     (case strtok '',*'' rest of
        (None, r) \<Rightarrow> (x, r)
      | (Some tok, r) \<Rightarrow> (if length tok > 0 then atof tok else x, r))"

definition markSatellitesInUse :: "string \<Rightarrow> u8 \<Rightarrow> GPS \<Rightarrow> GPS" where
  "markSatellitesInUse sentence constellationType g =
     (case strtok '','' (strncpy127 sentence) of
        (None, r1) \<Rightarrow> g
      | (Some tok0, r1) \<Rightarrow>
          (let r2 = snd (strtok '','' r1);
               (fixTok, r3) = strtok '','' r2;
               g1 = (case fixTok of
                       None \<Rightarrow> g
                     | Some tok \<Rightarrow> g\<lparr>gpsData := (gpsData g)\<lparr>fixMode := word_of_int (atoi tok)\<rparr>\<rparr>);
               (t, r4) = gsaSatellites 12 constellationType r3 (satTracking g1);
               (p, r5) = readDOP r4 (pdop (gpsData g1));
               (h, r6) = readDOP r5 (hdop (gpsData g1));
               (v, r7) = readDOP r6 (vdop (gpsData g1))
           in g1\<lparr>satTracking := t, gpsData := (gpsData g1)\<lparr>pdop := p, hdop := h, vdop := v\<rparr>\<rparr>))"

definition parseGPGSASentence :: "string \<Rightarrow> GPS \<Rightarrow> GPS" where
  "parseGPGSASentence sentence g = markSatellitesInUse sentence 1 g"

fun walkBack :: "string \<Rightarrow> nat \<Rightarrow> nat" where
  \<comment> \<open>\<open>while (lastComma > buffer && *lastComma != ',') lastComma--\<close>, on indices\<close>
  "walkBack buf 0 = 0"
| "walkBack buf (Suc i) = (if buf ! Suc i \<noteq> CHR '','' then walkBack buf i else Suc i)"

definition clearInUse :: "SatelliteTracking \<Rightarrow> SatelliteTracking" where
  \<comment> \<open>\<open>for (i = 0; i < satTracking.count; i++) satellites[i].inUse = false\<close>\<close>
  "clearInUse t =
     t\<lparr>sats := map (\<lambda>s. s\<lparr>inUse := False\<rparr>) (take (count t) (sats t)) @ drop (count t) (sats t)\<rparr>"

text \<open>
  \<open>parseGNGSASentence\<close> returns \<open>None\<close> where the C code has undefined behaviour: with
  the asterisk at the start of the buffer it reads \<open>buffer[-1]\<close>.
\<close>

definition parseGNGSASentence :: "string \<Rightarrow> GPS \<Rightarrow> GPS option" where
  "parseGNGSASentence sentence g =
     (let buffer = strncpy127 sentence in
      case first_index (\<lambda>c. c = CHR ''*'') buffer of
        None \<Rightarrow> Some g
      | Some asterisk \<Rightarrow>
          if asterisk = 0 then None
          else
            (let lastComma = walkBack buffer (asterisk - 1) in
             if buffer ! lastComma \<noteq> CHR '','' then Some g
             else
               (let systemId = atoi (drop (lastComma + 1) buffer) in
                if systemId < 1 \<or> systemId > 6 then Some g
                else
                  (let constellationType = (word_of_int systemId :: u8);
                       g1 = (if constellationType = 1
                             then g\<lparr>satTracking := clearInUse (satTracking g)\<rparr> else g)
                   in Some (markSatellitesInUse sentence constellationType g1)))))"

definition parseNMEASentence :: "u32 \<Rightarrow> string \<Rightarrow> GPS \<Rightarrow> GPS option" where
  "parseNMEASentence now sentence g0 =
     (let c0 = config g0;
          c1 = (if \<not> configurationComplete c0
                then
                  (let ca = (if indexOf_found sentence ''GPGSV'' \<or> indexOf_found sentence ''GNGSV''
                             then c0\<lparr>gpgsvEnabled := True\<rparr> else c0);
                       cb = (if indexOf_found sentence ''GPGSA'' \<or> indexOf_found sentence ''GNGSA''
                             then ca\<lparr>gpgsaEnabled := True\<rparr> else ca)
                   in if now - lastConfigCheck cb > 10000
                      then cb\<lparr>configurationComplete := True\<rparr> else cb)
                else c0);
          g = g0\<lparr>config := c1\<rparr>;
          named = (\<lambda>n g'. g'\<lparr>gpsData := (gpsData g')\<lparr>lastValidSentence := n\<rparr>\<rparr>)
      in if indexOf_found sentence ''GPGSV'' then Some (named ''GPGSV'' (parseGSVSentence now sentence 1 g))
         else if indexOf_found sentence ''GLGSV'' then Some (named ''GLGSV'' (parseGSVSentence now sentence 2 g))
         else if indexOf_found sentence ''GAGSV'' then Some (named ''GAGSV'' (parseGSVSentence now sentence 3 g))
         else if indexOf_found sentence ''GBGSV'' then Some (named ''GBGSV'' (parseGSVSentence now sentence 4 g))
         else if indexOf_found sentence ''GNGSV'' then Some (named ''GNGSV'' (parseGNGSVSentence now sentence g))
         else if indexOf_found sentence ''GPGSA'' then Some (named ''GPGSA'' (parseGPGSASentence sentence g))
         else if indexOf_found sentence ''GNGSA'' then map_option (named ''GNGSA'') (parseGNGSASentence sentence g)
         else Some g)"

section \<open>GPS.h: the snapshot\<close>

definition leapYear :: "nat \<Rightarrow> bool" where
  \<comment> \<open>\<open>(y % 4 == 0 && y % 100 != 0) || (y % 400 == 0)\<close>\<close>
  "leapYear y = ((y mod 4 = 0 \<and> y mod 100 \<noteq> 0) \<or> y mod 400 = 0)"

definition daysInMonth :: "u32 list" where
  "daysInMonth = [31, 28, 31, 30, 31, 30, 31, 31, 30, 31, 30, 31]"

definition addYears :: "u16 \<Rightarrow> u32 \<Rightarrow> u32" where
  \<comment> \<open>\<open>for (uint16_t y = 1970; y < year; y++) days += leapYear ? 366 : 365\<close>\<close>
  "addYears yr days0 =
     fold (\<lambda>y days. days + (if leapYear y then 366 else 365)) [1970 ..< unat yr] days0"

definition addMonths :: "u16 \<Rightarrow> u8 \<Rightarrow> u32 \<Rightarrow> u32" where
  \<comment> \<open>\<open>for (uint8_t m = 1; m < month; m++)\<close>\<close>
  "addMonths yr mon days0 =
     fold (\<lambda>m days. let d1 = days + daysInMonth ! (m - 1)
                     in if m = 2 \<and> leapYear (unat yr) then d1 + 1 else d1)
          [1 ..< unat mon] days0"

text \<open>
  The block of \<open>updateGPSData\<close> that computes the unix timestamp. With \<open>month\<close> above 13
  the second loop reads past the 12 entries of \<open>daysInMonth\<close>: the result is \<open>None\<close>.
  All arithmetic is \<open>uint32_t\<close>; \<open>day - 1\<close> is an \<open>int\<close> converted to \<open>uint32_t\<close>.
\<close>

definition calcUnixTime :: "u16 \<Rightarrow> u8 \<Rightarrow> u8 \<Rightarrow> u8 \<Rightarrow> u8 \<Rightarrow> u8 \<Rightarrow> u32 option" where
  "calcUnixTime yr mon d h mi s =
     (if 13 < unat mon then None
      else
        (let days = addYears yr 0;
             days = addMonths yr mon days;
             days = days + (ucast d - 1)
         in Some (days * 86400 + ucast h * 3600 + ucast mi * 60 + ucast s)))"

definition updateTime :: "u32 \<Rightarrow> TinyGPS \<Rightarrow> GPS \<Rightarrow> GPS option" where
  \<comment> \<open>\<open>updateGPSData\<close>, the block "Update time"\<close>
  "updateTime now tiny g =
     (if time_isValid tiny \<and> date_isValid tiny then
        (let d = gpsData g;
             wasInvalid = \<not> timeValid d;
             d1 = d\<lparr>timeValid := True, hour := time_hour tiny, minute := time_minute tiny,
                    second := time_second tiny, centisecond := ucast (time_centisecond tiny),
                    day := date_day tiny, month := date_month tiny, year := date_year tiny\<rparr>;
             d2 = (if wasInvalid
                   then d1\<lparr>lockAcquiredTime := now, lockAcquiredFraction := centisecond d1\<rparr>
                   else d1);
             d3 = d2\<lparr>hadPreviousFix := True\<rparr>
         in case calcUnixTime (year d3) (month d3) (day d3) (hour d3) (minute d3) (second d3) of
              None \<Rightarrow> None
            | Some t \<Rightarrow>
                (let g1 = g\<lparr>gpsData := d3\<lparr>unixTime := t, lastUpdateMillis := now\<rparr>\<rparr>
                 in Some (if wasInvalid
                          then fireEvent now EVENT_GPS_FIX_ACQUIRED (Text ''GPS time acquired'') g1
                          else g1)))
      else Some (g\<lparr>gpsData := (gpsData g)\<lparr>timeValid := False, hadPreviousFix := False\<rparr>\<rparr>))"

definition updatePosition :: "u32 \<Rightarrow> TinyGPS \<Rightarrow> GPS \<Rightarrow> GPS" where
  \<comment> \<open>\<open>updateGPSData\<close>, the block "Update position"\<close>
  "updatePosition now tiny g =
     (if location_isValid tiny then
        (let wasInvalid = \<not> valid (gpsData g);
             g1 = g\<lparr>gpsData := (gpsData g)\<lparr>valid := True, latitude := location_lat tiny,
                       longitude := location_lng tiny, lastUpdateMillis := now\<rparr>\<rparr>
         in if wasInvalid
            then fireEvent now EVENT_GPS_FIX_ACQUIRED (Text ''GPS position fix acquired'') g1
            else g1)
      else
        (let g1 = (if valid (gpsData g)
                   then fireEvent now EVENT_GPS_FIX_LOST (Text ''GPS position fix lost'') g
                   else g)
         in g1\<lparr>gpsData := (gpsData g1)\<lparr>valid := False\<rparr>\<rparr>))"

definition updateMotion :: "TinyGPS \<Rightarrow> GPS \<Rightarrow> GPS" where
  \<comment> \<open>\<open>updateGPSData\<close>, the block "Update altitude, speed, course"\<close>
  "updateMotion tiny g =
     (let d = gpsData g;
          d1 = (if altitude_isValid tiny then d\<lparr>altitude := altitude_meters tiny\<rparr> else d);
          d2 = (if speed_isValid tiny then d1\<lparr>speed := speed_kmph tiny\<rparr> else d1);
          d3 = (if course_isValid tiny then d2\<lparr>course := course_deg tiny\<rparr> else d2)
      in g\<lparr>gpsData := d3\<rparr>)"

definition updateSatelliteCount :: "u32 \<Rightarrow> GPS \<Rightarrow> GPS" where
  \<comment> \<open>\<open>gpsData.satellites = satTracking.totalInUse\<close> and the low-count event\<close>
  "updateSatelliteCount now g =
     (let g1 = g\<lparr>gpsData := (gpsData g)\<lparr>satellites := totalInUse (satTracking g)\<rparr>\<rparr>
      in if satellites (gpsData g1) < uint (minSatellites (thresholds g1))
         then fireEvent now EVENT_LOW_SATELLITE_COUNT
                (LowSatelliteCount (satellites (gpsData g1))) g1
         else g1)"

definition updateDOP :: "u32 \<Rightarrow> TinyGPS \<Rightarrow> GPS \<Rightarrow> GPS" where
  \<comment> \<open>the HDOP of the decoder and the two DOP events\<close>
  "updateDOP now tiny g =
     (let g1 = (if hdop_isValid tiny then
                  (let ga = g\<lparr>gpsData := (gpsData g)\<lparr>hdop := hdop_hdop tiny\<rparr>\<rparr>
                   in if hdop (gpsData ga) > maxHDOP (thresholds ga)
                      then fireEvent now EVENT_HIGH_HDOP (HighHDOP (hdop (gpsData ga))) ga
                      else ga)
                else g)
      in if pdop (gpsData g1) > maxPDOP (thresholds g1)
         then fireEvent now EVENT_HIGH_PDOP (HighPDOP (pdop (gpsData g1))) g1
         else g1)"

definition updateFixQuality :: "GPS \<Rightarrow> GPS" where
  "updateFixQuality g =
     (let d = gpsData g;
          q = (if \<not> valid d \<and> \<not> timeValid d then 0
               else if valid d \<and> hdop d \<le> 2 \<and> satellites d \<ge> 8 \<and> fixMode d = 3 then 3
               else if valid d \<and> hdop d \<le> 5 \<and> satellites d \<ge> 6 then 2
               else if valid d \<and> satellites d \<ge> 4 then 1
               else if timeValid d then 0
               else 0)
      in g\<lparr>gpsData := d\<lparr>fixQuality := q\<rparr>\<rparr>)"

definition updateGPSData :: "u32 \<Rightarrow> TinyGPS \<Rightarrow> GPS \<Rightarrow> GPS option" where
  "updateGPSData now tiny g0 =
     (let g1 = g0\<lparr>gpsData := (gpsData g0)\<lparr>charsProcessed := tiny_charsProcessed tiny,
                      sentencesFailed := tiny_failedChecksum tiny,
                      totalSentences := tiny_passedChecksum tiny\<rparr>\<rparr>
      in case updateTime now tiny g1 of
           None \<Rightarrow> None
         | Some g2 \<Rightarrow>
             (let g3 = updatePosition now tiny g2;
                  g4 = updateMotion tiny g3;
                  g5 = updateSatelliteCount now g4;
                  g6 = updateDOP now tiny g5;
                  g7 = updateFixQuality g6
              in Some (if lastUpdateMillis (gpsData g7) > 0
                       then g7\<lparr>gpsData := (gpsData g7)\<lparr>updateAge :=
                                  now - lastUpdateMillis (gpsData g7)\<rparr>\<rparr>
                       else g7)))"

definition countSatellite :: "SatelliteInfo \<Rightarrow> SatelliteTracking \<Rightarrow> SatelliteTracking" where
  \<comment> \<open>one round of the loop of \<open>updateConstellationCounts\<close>\<close>
  "countSatellite s t =
     (if \<not> tracked s then t
      else if inUse s then
        (let t1 = (if constellation s = 1 then t\<lparr>gpsCount := gpsCount t + 1\<rparr>
                   else if constellation s = 2 then t\<lparr>glonassCount := glonassCount t + 1\<rparr>
                   else if constellation s = 3 then t\<lparr>galileoCount := galileoCount t + 1\<rparr>
                   else if constellation s = 4 then t\<lparr>beidouCount := beidouCount t + 1\<rparr>
                   else if constellation s = 5 then t\<lparr>qzssCount := qzssCount t + 1\<rparr>
                   else t)
         in t1\<lparr>totalInUse := totalInUse t1 + 1\<rparr>)
      else t)"

definition updateConstellationCounts :: "GPS \<Rightarrow> GPS" where
  "updateConstellationCounts g =
     (let t = (satTracking g)\<lparr>gpsCount := 0, glonassCount := 0, galileoCount := 0,
                 beidouCount := 0, qzssCount := 0, totalInUse := 0\<rparr>
      in g\<lparr>satTracking := fold countSatellite (take (count t) (sats t)) t\<rparr>)"

definition snrSumCount :: "SatelliteInfo list \<Rightarrow> double \<times> int" where
  \<comment> \<open>the sum and the number of the nonzero SNR values of the tracked entries\<close>
  "snrSumCount xs =
     fold (\<lambda>s (sm, n). if tracked s \<and> snr s \<noteq> 0 then (sm + of_nat (unat (snr s)), n + 1)
                        else (sm, n))
          xs (0, 0)"

definition getAverageSNR :: "u8 \<Rightarrow> GPS \<Rightarrow> double" where
  "getAverageSNR c g =
     (let xs = filter (\<lambda>s. \<not> (c \<noteq> 0 \<and> constellation s \<noteq> c))
                 (take (count (satTracking g)) (sats (satTracking g)));
          (sm, n) = snrSumCount xs
      in if n > 0 then sm / of_int n else 0)"

definition addHistoricalPoint :: "u32 \<Rightarrow> GPS \<Rightarrow> GPS" where
  "addHistoricalPoint now g =
     (if now - lastRecordTime (history g) < HISTORY_INTERVAL then g
      else
        (let h = history g; d = gpsData g;
             (sm, n) = snrSumCount (take (count (satTracking g)) (sats (satTracking g)));
             point = \<lparr>hp_timestamp = now, hp_satelliteCount = word_of_int (satellites d),
                      hp_hdop = hdop d, hp_pdop = pdop d, hp_fixQuality = fixQuality d,
                      hp_fixMode = fixMode d,
                      hp_avgSNR = (if n > 0 then sm / of_int n else 0),
                      hp_hasValidFix = valid d\<rparr>;
             h1 = h\<lparr>points := (points h)[hist_head h := point],
                    hist_head := (hist_head h + 1) mod HISTORY_BUFFER_SIZE\<rparr>;
             h2 = (if hist_count h1 < HISTORY_BUFFER_SIZE
                   then h1\<lparr>hist_count := hist_count h1 + 1\<rparr> else h1)
         in g\<lparr>history := h2\<lparr>lastRecordTime := now\<rparr>\<rparr>))"

definition checkStaleness :: "u32 \<Rightarrow> GPS \<Rightarrow> GPS" where
  "checkStaleness now g =
     (if updateAge (gpsData g) > GPS_DATA_TIMEOUT then
        (let g1 = (if valid (gpsData g) \<or> timeValid (gpsData g)
                   then fireEvent now EVENT_GPS_TIMEOUT (Text ''GPS data timeout'') g
                   else g)
         in g1\<lparr>gpsData := (gpsData g1)\<lparr>valid := False, timeValid := False\<rparr>\<rparr>)
      else g)"

definition checkHeartbeat :: "u32 \<Rightarrow> GPS \<Rightarrow> GPS" where
  "checkHeartbeat now g =
     (if now - lastCharReceived (watchdog g) > GPS_HEARTBEAT_TIMEOUT then
        (if \<not> unresponsive (watchdog g) then
           (case shouldFireEvent now EVENT_GPS_UNRESPONSIVE g of
              (True, g1) \<Rightarrow>
                (let g2 = addEvent now EVENT_GPS_UNRESPONSIVE (Text ''GPS module not responding'') g1
                 in g2\<lparr>watchdog := (watchdog g2)\<lparr>unresponsive := True\<rparr>\<rparr>)
            | (False, g1) \<Rightarrow> g1)
         else g)
      else g)"

section \<open>GPS.h: the health engine\<close>

definition calculateSatelliteScore :: "GPS \<Rightarrow> u8" where
  "calculateSatelliteScore g =
     (let sats = satellites (gpsData g) in
      if sats \<ge> 12 then 100
      else if sats \<ge> 8 then 80
      else if sats \<ge> 6 then 60
      else if sats \<ge> 4 then 40
      else if sats \<ge> 1 then 20
      else 0)"

definition calculateHDOPScore :: "GPS \<Rightarrow> u8" where
  "calculateHDOPScore g =
     (let hdop = hdop (gpsData g) in
      if hdop = 0 then 0
      else if hdop \<le> 1 then 100
      else if hdop \<le> 2 then 80
      else if hdop \<le> 5 then 60
      else if hdop \<le> 10 then 40
      else if hdop \<le> 20 then 20
      else 10)"

definition calculateSNRScore :: "GPS \<Rightarrow> u8" where
  "calculateSNRScore g =
     (let avgSNR = getAverageSNR 0 g in
      if avgSNR = 0 then 0
      else if avgSNR \<ge> 40 then 100
      else if avgSNR \<ge> 35 then 80
      else if avgSNR \<ge> 30 then 60
      else if avgSNR \<ge> 25 then 40
      else if avgSNR \<ge> 20 then 20
      else 10)"

definition calculateFixAgeScore :: "GPS \<Rightarrow> u8" where
  "calculateFixAgeScore g =
     (let age = updateAge (gpsData g) in
      if age < 1000 then 100
      else if age < 2000 then 80
      else if age < 5000 then 60
      else if age < 10000 then 40
      else if age < 30000 then 20
      else 0)"

definition calculateFixModeScore :: "GPS \<Rightarrow> u8" where
  "calculateFixModeScore g =
     (if fixMode (gpsData g) = 3 then 100
      else if fixMode (gpsData g) = 2 then 60
      else if fixMode (gpsData g) = 1 then 0
      else 0)"

definition HEALTH_WEIGHT_SATELLITES :: int where "HEALTH_WEIGHT_SATELLITES = 30"
definition HEALTH_WEIGHT_HDOP :: int where "HEALTH_WEIGHT_HDOP = 25"
definition HEALTH_WEIGHT_SNR :: int where "HEALTH_WEIGHT_SNR = 20"
definition HEALTH_WEIGHT_FIX_AGE :: int where "HEALTH_WEIGHT_FIX_AGE = 15"
definition HEALTH_WEIGHT_FIX_MODE :: int where "HEALTH_WEIGHT_FIX_MODE = 10"

definition raiseAlert :: "bool \<Rightarrow> Message \<Rightarrow> GPS \<Rightarrow> GPS" where
  \<comment> \<open>sets the critical (\<open>True\<close>) or the warning (\<open>False\<close>) flag and the message\<close>
  "raiseAlert critical msg g =
     g\<lparr>health := (if critical then (health g)\<lparr>criticalAlert := True, alertMessage := msg\<rparr>
                   else (health g)\<lparr>warningAlert := True, alertMessage := msg\<rparr>)\<rparr>"

definition updateAlerts :: "u32 \<Rightarrow> GPS \<Rightarrow> GPS" where
  "updateAlerts now g0 =
     (if now < minUptime (thresholds g0) then g0
      else
        (let g = g0\<lparr>health := (health g0)\<lparr>criticalAlert := False, warningAlert := False,
                       alertMessage := Text []\<rparr>\<rparr>;
             d = gpsData g; th = thresholds g; avgSNR = getAverageSNR 0 g
         in if unresponsive (watchdog g) then raiseAlert True (Text ''GPS module unresponsive'') g
            else if \<not> timeValid d \<and> \<not> valid d then raiseAlert True (Text ''No GPS fix'') g
            else if updateAge d > GPS_DATA_TIMEOUT then raiseAlert True (Text ''GPS data timeout'') g
            else if satellites d < uint (minSatellites th)
              then raiseAlert False (LowSatelliteCount (satellites d)) g
            else if hdop d > maxHDOP th then raiseAlert False (HighHDOP (hdop d)) g
            else if pdop d > maxPDOP th then raiseAlert False (HighPDOP (pdop d)) g
            else if avgSNR > 0 \<and> avgSNR < minAvgSNR th
              then raiseAlert False (LowSignalStrength avgSNR) g
            else g))"

definition calculateHealth :: "u32 \<Rightarrow> GPS \<Rightarrow> GPS" where
  "calculateHealth now g =
     (let h1 = (health g)\<lparr>satelliteScore := calculateSatelliteScore g,
                  hdopScore := calculateHDOPScore g,
                  snrScore := calculateSNRScore g,
                  fixAgeScore := calculateFixAgeScore g,
                  fixModeScore := calculateFixModeScore g\<rparr>;
          h2 = h1\<lparr>gpsScore := word_of_int
                 ((uint (satelliteScore h1) * HEALTH_WEIGHT_SATELLITES +
                   uint (hdopScore h1) * HEALTH_WEIGHT_HDOP +
                   uint (snrScore h1) * HEALTH_WEIGHT_SNR +
                   uint (fixAgeScore h1) * HEALTH_WEIGHT_FIX_AGE +
                   uint (fixModeScore h1) * HEALTH_WEIGHT_FIX_MODE) div 100)\<rparr>;
          h3 = h2\<lparr>overallScore := gpsScore h2\<rparr>;
          g1 = updateAlerts now (g\<lparr>health := h3\<rparr>)
      in g1\<lparr>health := (health g1)\<lparr>lastCalculation := now\<rparr>\<rparr>)"

section \<open>GPS.h: the processing cycle\<close>

definition processChar :: "u32 \<Rightarrow> char \<Rightarrow> GPS \<Rightarrow> GPS option" where
  \<comment> \<open>one round of \<open>while (serial->available() > 0)\<close>; \<open>tinyGPS.encode(c)\<close> is external\<close>
  "processChar now c g0 =
     (let g1 = g0\<lparr>watchdog := (watchdog g0)\<lparr>lastCharReceived := now\<rparr>\<rparr>;
          g2 = (if unresponsive (watchdog g1)
                then addEvent now EVENT_SYSTEM_BOOT (Text ''GPS module recovered'')
                       (g1\<lparr>watchdog := (watchdog g1)\<lparr>unresponsive := False\<rparr>\<rparr>)
                else g1);
          g3 = (if c = CHR ''$'' then g2\<lparr>gpsBuffer := ''$''\<rparr>
                else if c = CHR 0x0A then g2\<lparr>gpsLineReady := True\<rparr>
                else if length (gpsBuffer g2) < GPS_BUFFER_MAX
                  then g2\<lparr>gpsBuffer := gpsBuffer g2 @ [c]\<rparr>
                else g2\<lparr>gpsBuffer := []\<rparr>)
      in if gpsLineReady g3
         then map_option (\<lambda>g. g\<lparr>gpsBuffer := []\<rparr>)
                (parseNMEASentence now (gpsBuffer g3) (g3\<lparr>gpsLineReady := False\<rparr>))
         else Some g3)"

fun readSerial :: "u32 \<Rightarrow> string \<Rightarrow> GPS \<Rightarrow> GPS option" where
  \<comment> \<open>the loop over the characters the serial link has available\<close>
  "readSerial now [] g = Some g"
| "readSerial now (c # cs) g =
     (case processChar now c g of None \<Rightarrow> None | Some g1 \<Rightarrow> readSerial now cs g1)"

definition process :: "u32 \<Rightarrow> string \<Rightarrow> TinyGPS \<Rightarrow> GPS \<Rightarrow> GPS option" where
  "process now available tiny g =
     (case readSerial now available g of
        None \<Rightarrow> None
      | Some g1 \<Rightarrow>
          (case updateGPSData now tiny g1 of
             None \<Rightarrow> None
           | Some g2 \<Rightarrow>
               Some (calculateHealth now
                      (checkHeartbeat now
                        (checkStaleness now
                          (addHistoricalPoint now
                            (updateConstellationCounts g2)))))))"

section \<open>NTP.h: data structures\<close>

text \<open>
  Fields of \<open>NTPConfig\<close> whose names \<open>AlertThresholds\<close> has too carry the prefix
  \<open>cfg_\<close>. An \<open>IPAddress\<close> is its four bytes as one word.
\<close>

type_synonym IPAddress = u32

record NTPConfig =
  enabled :: bool
  port :: u16
  rateLimitEnabled :: bool
  perClientMinInterval :: u32
  globalMaxRequestsPerSec :: u32
  maxClients :: u16
  broadcastEnabled :: bool
  broadcastInterval :: u16
  autoBroadcast :: bool
  stratum :: u8
  referenceID :: "u8 list"
  cfg_minSatellites :: u8
  cfg_maxHDOP :: double
  cfg_maxFixAge :: u32

record NTPClient =
  ip :: IPAddress
  lastRequest :: u32
  requestCount :: u32
  lastPollInterval :: u8
  averageInterval :: u32
  aggressiveCount :: u16
  aggressive :: bool
  rateLimited :: bool
  version :: u8

record NTPMetrics =
  totalRequests :: u32
  validResponses :: u32
  invalidRequests :: u32
  rateLimitedRequests :: u32
  kodSent :: u32
  noGPSDropped :: u32
  poorQualityDropped :: u32
  broadcastsSent :: u32
  averageResponseTime :: double
  peakResponseTime :: u32
  lastRequestTime :: u32
  uniqueClients :: u32
  clientVersions :: "u8 list"
  requestsByStratum :: "u32 list"
  currentlyServing :: bool
  servingStartTime :: u32
  lastServingStopTime :: u32

record GlobalRateLimit =
  requestsThisSecond :: u32
  lastSecondReset :: u32
  droppedThisSecond :: u32

record NTPTimestamp =
  seconds :: u32
  fraction :: u32

text \<open>
  A datagram of the UDP socket: for one received, the sender's address and port; for one
  sent (\<open>beginPacket\<close>, \<open>write\<close>, \<open>endPacket\<close>), the destination.
\<close>

record Datagram =
  dg_ip :: IPAddress
  dg_port :: int
  dg_payload :: "u8 list"

text \<open>
  \<open>buildNTPPacket\<close> takes two pointers, \<open>packet\<close> and \<open>request\<close>. The byte arrays a
  pointer of the class can denote are the member \<open>packetBuffer\<close> and the local array
  \<open>request\<close> of \<open>sendBroadcast\<close>; \<open>mem\<close> maps each to its 48 bytes, so that two
  pointers to the same array see each other's writes.
\<close>

datatype Buffer = PacketBuffer | BroadcastRequest

text \<open>
  \<open>clients\<close> is the array allocated by \<open>begin\<close> (\<open>maxClients\<close> entries), \<open>clientCount\<close>
  the number of entries in use at its front. \<open>lastGPSUpdateMicros\<close> and
  \<open>gpsUpdateMillis\<close> are the static locals of \<open>microsToNTP\<close>. \<open>udp_sent\<close> lists the
  datagrams written to the socket, oldest first.
\<close>

record NTP =
  ntpConfig :: NTPConfig
  metrics :: NTPMetrics
  globalRateLimit :: GlobalRateLimit
  clients :: "NTPClient list"
  clientCount :: nat
  mem :: "Buffer \<Rightarrow> u8 list"
  lastBroadcast :: u32
  lastCleanup :: u32
  lastGPSUpdateMicros :: u32
  gpsUpdateMillis :: u32
  udp_sent :: "Datagram list"

text \<open>
  The readings of \<open>millis()\<close> and \<open>micros()\<close> that one call of \<open>handleNTPRequests\<close>
  takes and uses, one field for each call in the order of execution. The reading stored in
  \<open>transmitTimeMicros\<close> right after \<open>receiveTimeMicros\<close> is never used by the function
  (the reply takes a fresh \<open>micros()\<close>) and has no field.
\<close>

record Clock =
  micros_receive :: u32
  millis_global :: u32
  millis_client :: u32
  millis_stats :: u32
  millis_start :: u32
  micros_transmit :: u32
  millis_last :: u32
  millis_end :: u32

definition NTP_PACKET_SIZE :: nat where "NTP_PACKET_SIZE = 48"
definition NTP_PORT :: int where "NTP_PORT = 123"
definition NTP_EPOCH_OFFSET :: u32 where "NTP_EPOCH_OFFSET = 2208988800"
definition NTP_AGGRESSIVE_THRESHOLD :: u16 where "NTP_AGGRESSIVE_THRESHOLD = 10"

section \<open>NTP.h: packet fields\<close>

definition poke :: "Buffer \<Rightarrow> nat \<Rightarrow> u8 \<Rightarrow> (Buffer \<Rightarrow> u8 list) \<Rightarrow> (Buffer \<Rightarrow> u8 list)" where
  \<comment> \<open>\<open>b[i] = v\<close>\<close>
  "poke b i v m = m(b := (m b)[i := v])"

definition memcpy :: "Buffer \<Rightarrow> nat \<Rightarrow> u8 list \<Rightarrow> (Buffer \<Rightarrow> u8 list) \<Rightarrow> (Buffer \<Rightarrow> u8 list)" where
  \<comment> \<open>\<open>memcpy(&b[i], src, n)\<close> with the \<open>n\<close> source bytes already read\<close>
  "memcpy b i src m = fold (\<lambda>k. poke b (i + k) (src ! k)) [0 ..< length src] m"

definition extractPollInterval :: "u8 list \<Rightarrow> u8" where
  "extractPollInterval packet =
     (let poll = packet ! 2;
          poll = (if poll < 4 then 4 else poll);
          poll = (if poll > 10 then 10 else poll)
      in poll)"

definition extractVersion :: "u8 list \<Rightarrow> u8" where
  "extractVersion packet = drop_bit 3 (packet ! 0) AND 0x07"

definition extractStratum :: "u8 list \<Rightarrow> u8" where
  "extractStratum packet = packet ! 1"

definition validateNTPRequest :: "u8 list \<Rightarrow> bool" where
  "validateNTPRequest packet =
     (let version = extractVersion packet in
      if version < 3 \<or> version > 4 then False
      else if packet ! 0 AND 0x07 \<noteq> 3 then False
      else if packet ! 1 > 16 then False
      else True)"

definition writeNTPTimestamp :: "Buffer \<Rightarrow> nat \<Rightarrow> NTPTimestamp \<Rightarrow> (Buffer \<Rightarrow> u8 list) \<Rightarrow> (Buffer \<Rightarrow> u8 list)" where
  "writeNTPTimestamp packet offset ts m =
     (let m = poke packet (offset + 0) (ucast (drop_bit 24 (seconds ts) AND 0xFF)) m;
          m = poke packet (offset + 1) (ucast (drop_bit 16 (seconds ts) AND 0xFF)) m;
          m = poke packet (offset + 2) (ucast (drop_bit 8 (seconds ts) AND 0xFF)) m;
          m = poke packet (offset + 3) (ucast (seconds ts AND 0xFF)) m;
          m = poke packet (offset + 4) (ucast (drop_bit 24 (fraction ts) AND 0xFF)) m;
          m = poke packet (offset + 5) (ucast (drop_bit 16 (fraction ts) AND 0xFF)) m;
          m = poke packet (offset + 6) (ucast (drop_bit 8 (fraction ts) AND 0xFF)) m;
          m = poke packet (offset + 7) (ucast (fraction ts AND 0xFF)) m
      in m)"

section \<open>NTP.h: GPS quality and timestamps\<close>

definition isGPSQualitySufficient :: "NTPConfig \<Rightarrow> GPSData \<Rightarrow> bool" where
  "isGPSQualitySufficient cfg d =
     (if \<not> timeValid d then False
      else if satellites d < uint (cfg_minSatellites cfg) then False
      else if hdop d > cfg_maxHDOP cfg then False
      else if updateAge d > cfg_maxFixAge cfg then False
      else True)"

text \<open>
  Root delay and dispersion are \<open>float\<close> seconds; the model computes them exactly, so the
  last bit of bytes 4 to 11 of a reply can differ from what the code's \<open>float\<close> rounding
  gives.
\<close>

definition calculateRootDelayDispersion :: "GPSData \<Rightarrow> double \<times> double" where
  "calculateRootDelayDispersion d =
     (let rootDelay = (if pdop d < 2 then 1 / 1000
                       else if pdop d < 5 then 5 / 1000
                       else 10 / 1000);
          rootDispersion = of_nat (unat (updateAge d)) / 1000 + hdop d * (1 / 1000);
          rootDispersion = (if rootDispersion > 1 then 1 else rootDispersion)
      in (rootDelay, rootDispersion))"

definition to_fixed16 :: "double \<Rightarrow> u32" where
  \<comment> \<open>\<open>(uint32_t)(x * 65536.0)\<close>, for \<open>x\<close> that is not negative\<close>
  "to_fixed16 x = word_of_int \<lfloor>x * 65536\<rfloor>"

definition centisToFraction :: "u16 \<Rightarrow> u32" where
  \<comment> \<open>\<open>((uint64_t)c * 4294967296ULL) / 100ULL\<close>, stored in a \<open>uint32_t\<close>\<close>
  "centisToFraction c = ucast (((ucast c :: u64) * 4294967296) div 100)"

definition gpsTimeToNTP :: "GPSData \<Rightarrow> NTPTimestamp" where
  "gpsTimeToNTP d =
     \<lparr>seconds = unixTime d + NTP_EPOCH_OFFSET, fraction = centisToFraction (centisecond d)\<rparr>"

definition microsToNTP :: "GPSData \<Rightarrow> u32 \<Rightarrow> NTP \<Rightarrow> NTPTimestamp \<times> NTP" where
  "microsToNTP d currentMicros s0 =
     (let ts = gpsTimeToNTP d;
          s = (if lastUpdateMillis d \<noteq> gpsUpdateMillis s0
               then s0\<lparr>lastGPSUpdateMicros := currentMicros,
                        gpsUpdateMillis := lastUpdateMillis d\<rparr>
               else s0);
          elapsedMicros = currentMicros - lastGPSUpdateMicros s;
          microsFraction = ((ucast elapsedMicros :: u64) * 4294967296) div 1000000;
          newFraction = (ucast (fraction ts) :: u64) + microsFraction
      in if newFraction > 0xFFFFFFFF
         then (\<lparr>seconds = seconds ts + ucast (drop_bit 32 newFraction),
                 fraction = ucast (newFraction AND 0xFFFFFFFF)\<rparr>, s)
         else (ts\<lparr>fraction := ucast newFraction\<rparr>, s))"

section \<open>NTP.h: building and sending packets\<close>

definition udp_send :: "IPAddress \<Rightarrow> int \<Rightarrow> NTP \<Rightarrow> NTP" where
  \<comment> \<open>\<open>beginPacket(ip, port); write(packetBuffer, NTP_PACKET_SIZE); endPacket()\<close>\<close>
  "udp_send a p s =
     s\<lparr>udp_sent := udp_sent s @
          [\<lparr>dg_ip = a, dg_port = p, dg_payload = take NTP_PACKET_SIZE (mem s PacketBuffer)\<rparr>]\<rparr>"

definition buildNTPPacket :: "GPSData \<Rightarrow> Buffer \<Rightarrow> Buffer \<Rightarrow> u32 \<Rightarrow> u32 \<Rightarrow> NTP \<Rightarrow> NTP" where
  "buildNTPPacket d packet request receiveTimeMicros transmitTimeMicros s0 =
     (let m = (mem s0)(packet := replicate NTP_PACKET_SIZE 0);
          leapIndicator = (if \<not> timeValid d \<or> updateAge d > 2000 then 3 else 0 :: u8);
          version = extractVersion (m request);
          mode = (4 :: u8);
          m = poke packet 0 (push_bit 6 leapIndicator OR push_bit 3 version OR mode) m;
          m = poke packet 1 (stratum (ntpConfig s0)) m;
          m = poke packet 2 (extractPollInterval (m request)) m;
          m = poke packet 3 0xEC m;
          (rootDelaySeconds, rootDispersionSeconds) = calculateRootDelayDispersion d;
          rootDelay = to_fixed16 rootDelaySeconds;
          m = poke packet 4 (ucast (drop_bit 24 rootDelay AND 0xFF)) m;
          m = poke packet 5 (ucast (drop_bit 16 rootDelay AND 0xFF)) m;
          m = poke packet 6 (ucast (drop_bit 8 rootDelay AND 0xFF)) m;
          m = poke packet 7 (ucast (rootDelay AND 0xFF)) m;
          rootDispersion = to_fixed16 rootDispersionSeconds;
          m = poke packet 8 (ucast (drop_bit 24 rootDispersion AND 0xFF)) m;
          m = poke packet 9 (ucast (drop_bit 16 rootDispersion AND 0xFF)) m;
          m = poke packet 10 (ucast (drop_bit 8 rootDispersion AND 0xFF)) m;
          m = poke packet 11 (ucast (rootDispersion AND 0xFF)) m;
          m = memcpy packet 12 (take 4 (referenceID (ntpConfig s0))) m;
          refSeconds = unixTime d + NTP_EPOCH_OFFSET;
          refFraction = centisToFraction (lockAcquiredFraction d);
          m = writeNTPTimestamp packet 16 \<lparr>seconds = refSeconds, fraction = refFraction\<rparr> m;
          m = memcpy packet 24 (take 8 (drop 40 (m request))) m;
          (receiveTime, s1) = microsToNTP d receiveTimeMicros s0;
          m = writeNTPTimestamp packet 32 receiveTime m;
          (transmitTime, s2) = microsToNTP d transmitTimeMicros s1;
          m = writeNTPTimestamp packet 40 transmitTime m
      in s2\<lparr>mem := m\<rparr>)"

definition sendNTPResponse :: "GPSData \<Rightarrow> IPAddress \<Rightarrow> int \<Rightarrow> Buffer \<Rightarrow> u32 \<Rightarrow> u32 \<Rightarrow> NTP \<Rightarrow> NTP" where
  \<comment> \<open>\<open>transmitTimeMicros\<close> is the reading of \<open>micros()\<close> the function takes\<close>
  "sendNTPResponse d clientIP clientPort request receiveTimeMicros transmitTimeMicros s =
     udp_send clientIP clientPort
       (buildNTPPacket d PacketBuffer request receiveTimeMicros transmitTimeMicros s)"

definition kissCode :: "string \<Rightarrow> u8 list" where
  \<comment> \<open>the four ASCII bytes of a kiss code\<close>
  "kissCode code = map (\<lambda>c. of_nat (of_char c)) (take 4 code)"

definition sendKissOfDeath :: "IPAddress \<Rightarrow> int \<Rightarrow> string \<Rightarrow> NTP \<Rightarrow> NTP" where
  "sendKissOfDeath clientIP clientPort code s0 =
     (let m = (mem s0)(PacketBuffer := replicate NTP_PACKET_SIZE 0);
          m = poke PacketBuffer 0 0xDC m;
          m = poke PacketBuffer 1 0 m;
          m = memcpy PacketBuffer 12 (kissCode code) m;
          s1 = udp_send clientIP clientPort (s0\<lparr>mem := m\<rparr>)
      in s1\<lparr>metrics := (metrics s1)\<lparr>kodSent := kodSent (metrics s1) + 1\<rparr>\<rparr>)"

definition sendBroadcast :: "GPSData \<Rightarrow> u32 \<Rightarrow> u32 \<Rightarrow> NTP \<Rightarrow> NTP" where
  \<comment> \<open>\<open>nowMicros\<close> and \<open>nowMillis\<close> are its readings of \<open>micros()\<close> and \<open>millis()\<close>\<close>
  "sendBroadcast d nowMicros nowMillis s0 =
     (if \<not> broadcastEnabled (ntpConfig s0) then s0
      else if \<not> isGPSQualitySufficient (ntpConfig s0) d then s0
      else
        (let m = (mem s0)(BroadcastRequest := replicate NTP_PACKET_SIZE 0);
             m = poke BroadcastRequest 0 0x23 m;
             m = poke BroadcastRequest 2 6 m;
             s1 = buildNTPPacket d PacketBuffer BroadcastRequest nowMicros nowMicros
                    (s0\<lparr>mem := m\<rparr>);
             s2 = s1\<lparr>mem := poke PacketBuffer 0
                            (((mem s1 PacketBuffer ! 0) AND 0xF8) OR 5) (mem s1)\<rparr>;
             s3 = udp_send 0xFFFFFFFF NTP_PORT s2
         in s3\<lparr>lastBroadcast := nowMillis,
                metrics := (metrics s3)\<lparr>broadcastsSent := broadcastsSent (metrics s3) + 1\<rparr>\<rparr>))"

section \<open>NTP.h: rate limiting\<close>

definition checkGlobalRateLimit :: "u32 \<Rightarrow> NTP \<Rightarrow> bool \<times> NTP" where
  "checkGlobalRateLimit now s0 =
     (let r0 = globalRateLimit s0;
          r = (if now - lastSecondReset r0 > 1000
               then r0\<lparr>requestsThisSecond := 0, droppedThisSecond := 0, lastSecondReset := now\<rparr>
               else r0)
      in if requestsThisSecond r \<ge> globalMaxRequestsPerSec (ntpConfig s0)
         then (False, s0\<lparr>globalRateLimit := r\<rparr>)
         else (True, s0\<lparr>globalRateLimit := r\<lparr>requestsThisSecond := requestsThisSecond r + 1\<rparr>\<rparr>))"

definition initClient :: "IPAddress \<Rightarrow> NTPClient \<Rightarrow> NTPClient" where
  \<comment> \<open>the assignments both branches of \<open>findOrCreateClient\<close> make to the chosen slot\<close>
  "initClient a c =
     c\<lparr>ip := a, requestCount := 0, lastRequest := 0, aggressiveCount := 0,
       aggressive := False, rateLimited := False, averageInterval := 0\<rparr>"

definition oldestIndex :: "NTPClient list \<Rightarrow> nat \<Rightarrow> nat" where
  \<comment> \<open>the scan \<open>for (i = 1; i < config.maxClients; i++)\<close> for the oldest entry\<close>
  "oldestIndex cs n =
     fst (fold (\<lambda>i (oi, ot). if lastRequest (cs ! i) < ot then (i, lastRequest (cs ! i))
                               else (oi, ot))
            [1 ..< n] (0, lastRequest (cs ! 0)))"

text \<open>
  \<open>findOrCreateClient\<close> returns the index of the entry its pointer denotes. It never
  returns a null pointer. With \<open>maxClients = 0\<close> the C code indexes an empty array, which
  is outside the model.
\<close>

definition findOrCreateClient :: "IPAddress \<Rightarrow> NTP \<Rightarrow> nat \<times> NTP" where
  "findOrCreateClient clientIP s =
     (case first_index (\<lambda>c. ip c = clientIP) (take (clientCount s) (clients s)) of
        Some i \<Rightarrow> (i, s)
      | None \<Rightarrow>
          if clientCount s < unat (maxClients (ntpConfig s)) then
            (let i = clientCount s;
                 s1 = s\<lparr>clientCount := clientCount s + 1,
                        clients := (clients s)[i := initClient clientIP (clients s ! i)]\<rparr>
             in (i, s1\<lparr>metrics := (metrics s1)\<lparr>uniqueClients := of_nat (clientCount s1)\<rparr>\<rparr>))
          else
            (let i = oldestIndex (clients s) (unat (maxClients (ntpConfig s)))
             in (i, s\<lparr>clients := (clients s)[i := initClient clientIP (clients s ! i)]\<rparr>)))"

definition updateClientStats :: "u32 \<Rightarrow> u8 \<Rightarrow> NTPClient \<Rightarrow> NTPClient" where
  "updateClientStats now pollInterval c0 =
     (let c = c0\<lparr>requestCount := requestCount c0 + 1, lastPollInterval := pollInterval\<rparr>
      in if averageInterval c = 0
         then c\<lparr>averageInterval := now - lastRequest c\<rparr>
         else (let thisInterval = now - lastRequest c
               in c\<lparr>averageInterval := (averageInterval c * 3 + thisInterval) div 4\<rparr>))"

definition checkClientRateLimit :: "u32 \<Rightarrow> u32 \<Rightarrow> IPAddress \<Rightarrow> u8 \<Rightarrow> NTP \<Rightarrow> bool \<times> NTP" where
  \<comment> \<open>\<open>now\<close> is its own reading of \<open>millis()\<close>, \<open>nowStats\<close> that of \<open>updateClientStats\<close>\<close>
  "checkClientRateLimit now nowStats clientIP pollInterval s0 =
     (let (i, s) = findOrCreateClient clientIP s0;
          client = clients s ! i;
          timeSinceLastRequest = now - lastRequest client
      in if timeSinceLastRequest < perClientMinInterval (ntpConfig s) then
           (let c1 = client\<lparr>rateLimited := True, aggressiveCount := aggressiveCount client + 1\<rparr>;
                c2 = (if aggressiveCount c1 > NTP_AGGRESSIVE_THRESHOLD
                      then c1\<lparr>aggressive := True\<rparr> else c1)
            in (False, s\<lparr>clients := (clients s)[i := c2]\<rparr>))
         else
           (let c1 = updateClientStats nowStats pollInterval client;
                c2 = c1\<lparr>lastRequest := now, rateLimited := False\<rparr>
            in (True, s\<lparr>clients := (clients s)[i := c2]\<rparr>)))"

section \<open>NTP.h: the request handler\<close>

definition bump :: "nat \<Rightarrow> 'a::len word list \<Rightarrow> 'a word list" where
  \<comment> \<open>\<open>a[i]++\<close>\<close>
  "bump i xs = xs[i := xs ! i + 1]"

definition recordResponse :: "Clock \<Rightarrow> NTP \<Rightarrow> NTP" where
  \<comment> \<open>\<open>handleNTPRequests\<close>, the block "Update metrics" and the two statistics after it\<close>
  "recordResponse clk s =
     (let mt = metrics s;
          mt = mt\<lparr>totalRequests := totalRequests mt + 1,
                  validResponses := validResponses mt + 1,
                  lastRequestTime := millis_last clk\<rparr>;
          responseTime = millis_end clk - millis_start clk;
          mt = (if responseTime > peakResponseTime mt
                then mt\<lparr>peakResponseTime := responseTime\<rparr> else mt);
          mt = (if averageResponseTime mt = 0
                then mt\<lparr>averageResponseTime := of_nat (unat responseTime)\<rparr>
                else mt\<lparr>averageResponseTime :=
                          averageResponseTime mt * (9 / 10) + of_nat (unat responseTime) * (1 / 10)\<rparr>);
          version = extractVersion (mem s PacketBuffer);
          mt = (if version \<ge> 1 \<and> version \<le> 4
                then mt\<lparr>clientVersions := bump (unat version - 1) (clientVersions mt)\<rparr>
                else mt\<lparr>clientVersions := bump 4 (clientVersions mt)\<rparr>);
          clientStratum = extractStratum (mem s PacketBuffer);
          mt = (if clientStratum \<le> 16
                then mt\<lparr>requestsByStratum := bump (unat clientStratum) (requestsByStratum mt)\<rparr>
                else mt)
      in s\<lparr>metrics := mt\<rparr>)"

text \<open>
  \<open>handleNTPRequests\<close> on what \<open>parsePacket\<close> found: \<open>None\<close> when no datagram is
  waiting (size 0), else the datagram, whose size is the length of its payload.
\<close>

definition handleNTPRequests :: "Clock \<Rightarrow> GPSData \<Rightarrow> Datagram option \<Rightarrow> NTP \<Rightarrow> NTP" where
  "handleNTPRequests clk d incoming s0 =
     (case incoming of
        None \<Rightarrow> s0
      | Some dg \<Rightarrow>
          if length (dg_payload dg) \<noteq> NTP_PACKET_SIZE then
            (if length (dg_payload dg) > 0
             then s0\<lparr>metrics := (metrics s0)\<lparr>invalidRequests := invalidRequests (metrics s0) + 1\<rparr>\<rparr>
             else s0)
          else
            (let receiveTimeMicros = micros_receive clk;
                 clientIP = dg_ip dg;
                 clientPort = dg_port dg;
                 s1 = s0\<lparr>mem := (mem s0)(PacketBuffer := dg_payload dg)\<rparr>;
                 (globalOk, s2) = checkGlobalRateLimit (millis_global clk) s1
             in if \<not> globalOk then
                  s2\<lparr>metrics := (metrics s2)\<lparr>rateLimitedRequests :=
                                    rateLimitedRequests (metrics s2) + 1\<rparr>,
                     globalRateLimit := (globalRateLimit s2)\<lparr>droppedThisSecond :=
                                    droppedThisSecond (globalRateLimit s2) + 1\<rparr>\<rparr>
                else if \<not> validateNTPRequest (mem s2 PacketBuffer) then
                  s2\<lparr>metrics := (metrics s2)\<lparr>invalidRequests := invalidRequests (metrics s2) + 1\<rparr>\<rparr>
                else if \<not> isGPSQualitySufficient (ntpConfig s2) d then
                  sendKissOfDeath clientIP clientPort ''DENY''
                    (s2\<lparr>metrics := (metrics s2)\<lparr>noGPSDropped := noGPSDropped (metrics s2) + 1\<rparr>\<rparr>)
                else
                  (let pollInterval = extractPollInterval (mem s2 PacketBuffer);
                       (clientOk, s3) =
                          (if rateLimitEnabled (ntpConfig s2)
                           then checkClientRateLimit (millis_client clk) (millis_stats clk)
                                  clientIP pollInterval s2
                           else (True, s2))
                   in if \<not> clientOk then
                        sendKissOfDeath clientIP clientPort ''RATE''
                          (s3\<lparr>metrics := (metrics s3)\<lparr>rateLimitedRequests :=
                                            rateLimitedRequests (metrics s3) + 1\<rparr>\<rparr>)
                      else
                        recordResponse clk
                          (sendNTPResponse d clientIP clientPort PacketBuffer
                             receiveTimeMicros (micros_transmit clk) s3))))"

section \<open>The calendar of the specification\<close>

text \<open>
  The day count claim C6 compares the code with, in the specification's words: the number
  of days from 1970-01-01 to a date under the Gregorian rule (a year is a leap year iff it
  is divisible by 4 and not by 100, unless it is divisible by 400).
  \<open>spec_leapDaysThrough y\<close> counts the leap years among the years 1 to \<open>y\<close>.
\<close>

definition spec_leapYear :: "nat \<Rightarrow> bool" where
  "spec_leapYear y = ((4 dvd y \<and> \<not> 100 dvd y) \<or> 400 dvd y)"

definition spec_leapDaysThrough :: "nat \<Rightarrow> nat" where
  "spec_leapDaysThrough y = y div 4 - y div 100 + y div 400"

definition spec_daysBeforeMonth :: "nat list" where
  "spec_daysBeforeMonth = [0, 31, 59, 90, 120, 151, 181, 212, 243, 273, 304, 334]"

definition spec_monthLength :: "nat \<Rightarrow> nat \<Rightarrow> nat" where
  "spec_monthLength y m =
     (if m = 2 then (if spec_leapYear y then 29 else 28)
      else if m = 4 \<or> m = 6 \<or> m = 9 \<or> m = 11 then 30 else 31)"

definition spec_daysFromEpoch :: "nat \<Rightarrow> nat \<Rightarrow> nat \<Rightarrow> nat" where
  "spec_daysFromEpoch y m d =
     365 * (y - 1970) + (spec_leapDaysThrough (y - 1) - spec_leapDaysThrough 1969)
       + spec_daysBeforeMonth ! (m - 1) + (if spec_leapYear y \<and> 2 < m then 1 else 0) + (d - 1)"

definition spec_validCalendar :: "nat \<Rightarrow> nat \<Rightarrow> nat \<Rightarrow> nat \<Rightarrow> nat \<Rightarrow> nat \<Rightarrow> bool" where
  "spec_validCalendar y m d h mi s =
     (1970 \<le> y \<and> 1 \<le> m \<and> m \<le> 12 \<and> 1 \<le> d \<and> d \<le> spec_monthLength y m
      \<and> h < 24 \<and> mi < 60 \<and> s < 60)"

section \<open>The in-use sentence of the specification\<close>

text \<open>
  The specification reads an in-use sentence by its fields: the sentence is cut at every
  comma and at the asterisk, empty fields included, and the fields 3 to 14 (after the
  talker, the mode and the fix type) are the twelve identifier fields; the listed
  identifiers are the non-empty ones among them.
\<close>

fun spec_fields :: "string \<Rightarrow> string \<Rightarrow> string list" where
  "spec_fields cur [] = [rev cur]"
| "spec_fields cur (c # cs) =
     (if c = CHR '','' \<or> c = CHR ''*'' then rev cur # spec_fields [] cs
      else spec_fields (c # cur) cs)"

definition spec_listedIds :: "string \<Rightarrow> int list" where
  "spec_listedIds sentence =
     map atoi (filter (\<lambda>f. f \<noteq> []) (take 12 (drop 3 (spec_fields [] sentence))))"

section \<open>Entries that stay tracked\<close>

text \<open>
  \<open>keepsTracked t t'\<close>: the table \<open>t'\<close> has the slots of \<open>t\<close>, and every entry tracked in
  \<open>t\<close> is tracked in \<open>t'\<close>.
\<close>

definition keepsTracked :: "SatelliteTracking \<Rightarrow> SatelliteTracking \<Rightarrow> bool" where
  "keepsTracked t t' =
     (length (sats t') = length (sats t)
      \<and> (\<forall>i < length (sats t). tracked (sats t ! i) \<longrightarrow> tracked (sats t' ! i)))"

section \<open>Example inputs\<close>

definition scenarioSatellite :: "nat \<Rightarrow> SatelliteInfo" where
  "scenarioSatellite n =
     \<lparr>prn = of_nat n, constellation = 1, elevation = 45, azimuth = 120, snr = 38,
      inUse = True, tracked = True\<rparr>"

definition emptySlot :: SatelliteInfo where
  "emptySlot =
     \<lparr>prn = 0, constellation = 0, elevation = 0, azimuth = 0, snr = 0,
      inUse = False, tracked = False\<rparr>"

definition scenarioData :: GPSData where
  "scenarioData =
     \<lparr>timeValid = True, hour = 0, minute = 0, second = 0, centisecond = 0,
      day = 1, month = 3, year = 2024, unixTime = 1709251200, lockAcquiredTime = 1000,
      lockAcquiredFraction = 0, hadPreviousFix = True, valid = True, latitude = 0,
      longitude = 0, altitude = 0, speed = 0, course = 0, satellites = 10, hdop = 3 / 2,
      pdop = 5 / 2, vdop = 2, fixQuality = 3, fixMode = 3, lastUpdateMillis = 59500,
      updateAge = 500, charsProcessed = 0, sentencesFailed = 0, totalSentences = 0,
      lastValidSentence = ''GNGSA''\<rparr>"

definition scenarioGPS :: GPS where
  "scenarioGPS =
     \<lparr>config = \<lparr>gpsModuleType = ''AT6558/AT6668'', gpgsvEnabled = True, gpgsaEnabled = True,
                 configurationComplete = True, lastConfigCheck = 0, updateRate = 1\<rparr>,
      gpsData = scenarioData,
      satTracking = \<lparr>sats = map scenarioSatellite [1, 2, 3, 4, 5, 6, 7, 8, 9, 10] @ replicate 22 emptySlot,
                      count = 10, lastUpdate = 59000, gpsCount = 10, glonassCount = 0,
                      galileoCount = 0, beidouCount = 0, qzssCount = 0, totalInUse = 10\<rparr>,
      history = \<lparr>points = [], hist_head = 0, hist_count = 0, lastRecordTime = 0\<rparr>,
      eventLog = \<lparr>events = [], log_head = 0, log_count = 0\<rparr>,
      health = \<lparr>overallScore = 0, gpsScore = 0, satelliteScore = 0, hdopScore = 0,
                 snrScore = 0, fixAgeScore = 0, fixModeScore = 0, criticalAlert = False,
                 warningAlert = False, alertMessage = Text [], lastCalculation = 0\<rparr>,
      thresholds = \<lparr>minSatellites = 4, maxHDOP = 5, maxPDOP = 8, maxFixAge = 60000,
                     minUptime = 300000, minAvgSNR = 25\<rparr>,
      watchdog = \<lparr>lastCharReceived = 59900, lastEventTime = (\<lambda>t. 0), unresponsive = False\<rparr>,
      gpsBuffer = [], gpsLineReady = False\<rparr>"

definition tinyAt :: "u16 \<Rightarrow> u8 \<Rightarrow> u8 \<Rightarrow> u8 \<Rightarrow> u8 \<Rightarrow> u8 \<Rightarrow> TinyGPS" where
  \<comment> \<open>a decoder with a valid fix that reports the given date and time\<close>
  "tinyAt y m d h mi s =
     \<lparr>tiny_charsProcessed = 0, tiny_failedChecksum = 0, tiny_passedChecksum = 0,
      time_isValid = True, date_isValid = True, time_hour = h, time_minute = mi,
      time_second = s, time_centisecond = 0, date_day = d, date_month = m, date_year = y,
      location_isValid = True, location_lat = 0, location_lng = 0, altitude_isValid = False,
      altitude_meters = 0, speed_isValid = False, speed_kmph = 0, course_isValid = False,
      course_deg = 0, hdop_isValid = False, hdop_hdop = 0\<rparr>"

text \<open>
  A server after \<open>NTP::begin\<close> with the default configuration. The client array, which
  \<open>new NTPClient[maxClients]\<close> leaves uninitialised, is taken as zeroed; the packet buffer
  likewise.
\<close>

definition getDefaultConfig :: NTPConfig where
  "getDefaultConfig =
     \<lparr>enabled = True, port = 123, rateLimitEnabled = True, perClientMinInterval = 1000,
      globalMaxRequestsPerSec = 1000, maxClients = 50, broadcastEnabled = False,
      broadcastInterval = 64, autoBroadcast = True, stratum = 1,
      referenceID = [71, 80, 83, 0, 0], cfg_minSatellites = 4, cfg_maxHDOP = 10,
      cfg_maxFixAge = 5000\<rparr>"

definition blankClient :: NTPClient where
  "blankClient =
     \<lparr>ip = 0, lastRequest = 0, requestCount = 0, lastPollInterval = 0, averageInterval = 0,
      aggressiveCount = 0, aggressive = False, rateLimited = False, version = 0\<rparr>"

definition zeroMetrics :: NTPMetrics where
  "zeroMetrics =
     \<lparr>totalRequests = 0, validResponses = 0, invalidRequests = 0, rateLimitedRequests = 0,
      kodSent = 0, noGPSDropped = 0, poorQualityDropped = 0, broadcastsSent = 0,
      averageResponseTime = 0, peakResponseTime = 0, lastRequestTime = 0, uniqueClients = 0,
      clientVersions = replicate 5 0, requestsByStratum = replicate 17 0,
      currentlyServing = False, servingStartTime = 0, lastServingStopTime = 0\<rparr>"

definition NTP_begin :: "NTPConfig \<Rightarrow> u32 \<Rightarrow> NTP" where
  "NTP_begin cfg now =
     \<lparr>ntpConfig = cfg, metrics = zeroMetrics,
      globalRateLimit = \<lparr>requestsThisSecond = 0, lastSecondReset = now, droppedThisSecond = 0\<rparr>,
      clients = replicate (unat (maxClients cfg)) blankClient, clientCount = 0,
      mem = (\<lambda>b. replicate NTP_PACKET_SIZE 0), lastBroadcast = 0, lastCleanup = 0,
      lastGPSUpdateMicros = 0, gpsUpdateMillis = 0, udp_sent = []\<rparr>"

definition busyServer :: "u32 \<Rightarrow> NTP" where
  "busyServer n =
     (NTP_begin getDefaultConfig 0)\<lparr>globalRateLimit :=
        \<lparr>requestsThisSecond = n, lastSecondReset = 59500, droppedThisSecond = 0\<rparr>\<rparr>"

definition lowSatelliteData :: GPSData where
  "lowSatelliteData = scenarioData\<lparr>satellites := 3\<rparr>"

definition clientRequest :: "u8 list" where
  "clientRequest = [0x23, 0, 6, 0] @ replicate 36 0 @ [1, 2, 3, 4, 5, 6, 7, 8]"

definition malformedRequest :: "u8 list" where
  "malformedRequest = [0x0B, 0, 6, 0] @ replicate 36 0 @ [1, 2, 3, 4, 5, 6, 7, 8]"

definition datagramFrom :: "IPAddress \<Rightarrow> u8 list \<Rightarrow> Datagram" where
  "datagramFrom a p = \<lparr>dg_ip = a, dg_port = 40000, dg_payload = p\<rparr>"

definition clockAt :: "u32 \<Rightarrow> Clock" where
  "clockAt ms =
     \<lparr>micros_receive = 1000 * ms, millis_global = ms, millis_client = ms, millis_stats = ms,
      millis_start = ms, micros_transmit = 1000 * ms + 100, millis_last = ms, millis_end = ms\<rparr>"

definition knownClient :: "u32 \<Rightarrow> u16 \<Rightarrow> NTPClient" where
  "knownClient t k =
     \<lparr>ip = 0xC0A80105, lastRequest = t, requestCount = 3, lastPollInterval = 6,
      averageInterval = 64000, aggressiveCount = k, aggressive = False, rateLimited = False,
      version = 0\<rparr>"

definition trackedServer :: "u32 \<Rightarrow> u16 \<Rightarrow> NTP" where
  "trackedServer n k =
     (busyServer n)\<lparr>clients := knownClient 59800 k # replicate 49 blankClient, clientCount := 1\<rparr>"

definition fullServer :: NTP where
  "fullServer =
     (NTP_begin (getDefaultConfig\<lparr>maxClients := 2\<rparr>) 0)\<lparr>
        clients := [knownClient 200 0, (knownClient 100 0)\<lparr>ip := 0xC0A80106\<rparr>],
        clientCount := 2\<rparr>"

text \<open>
  A receiver whose table is empty, a visibility sentence for the satellites 10 and 12, and
  an in-use sentence with system id 1 that lists the same two satellites (both with their
  NMEA checksums); the table after the visibility sentence; and a receiver whose table was
  last updated at 10 s.
\<close>

definition emptyTableGPS :: GPS where
  "emptyTableGPS =
     scenarioGPS\<lparr>satTracking :=
       \<lparr>sats = replicate 32 emptySlot, count = 0, lastUpdate = 0, gpsCount = 0,
        glonassCount = 0, galileoCount = 0, beidouCount = 0, qzssCount = 0, totalInUse = 0\<rparr>\<rparr>"

definition gsvLine :: string where
  "gsvLine = ''$GPGSV,1,1,02,10,45,120,38,12,30,200,38*7A''"

definition gsaLine :: string where
  "gsaLine = ''$GNGSA,A,3,10,12,,,,,,,,,,,2.5,1.3,2.1,1*35''"

definition gsvTable :: SatelliteTracking where
  "gsvTable =
     \<lparr>sats = [\<lparr>prn = 10, constellation = 0, elevation = 45, azimuth = 120, snr = 38,
                inUse = False, tracked = True\<rparr>,
               \<lparr>prn = 12, constellation = 0, elevation = 30, azimuth = 200, snr = 38,
                inUse = False, tracked = True\<rparr>] @ replicate 30 emptySlot,
      count = 2, lastUpdate = 1000, gpsCount = 0,
      glonassCount = 0, galileoCount = 0, beidouCount = 0, qzssCount = 0, totalInUse = 0\<rparr>"

definition staleGPS :: GPS where
  "staleGPS = scenarioGPS\<lparr>satTracking := (satTracking scenarioGPS)\<lparr>lastUpdate := 10000\<rparr>\<rparr>"

section \<open>The C library model\<close>

lemma strtok_skips_empty_fields: "strtok '',*'' '',,12,,3*4A'' = (Some ''12'', '',3*4A'')"
  by (simp add: strtok_def)

section \<open>The event log leaves the snapshot alone\<close>

lemma gpsData_addEvent: "gpsData (addEvent now ty msg g) = gpsData g"
  by (simp add: addEvent_def Let_def)

lemma gpsData_fireEvent: "gpsData (fireEvent now ty msg g) = gpsData g"
  by (simp add: fireEvent_def shouldFireEvent_def gpsData_addEvent)

lemma satTracking_addEvent: "satTracking (addEvent now ty msg g) = satTracking g"
  by (simp add: addEvent_def Let_def)

lemma satTracking_fireEvent: "satTracking (fireEvent now ty msg g) = satTracking g"
  by (simp add: fireEvent_def shouldFireEvent_def satTracking_addEvent)

lemma thresholds_addEvent: "thresholds (addEvent now ty msg g) = thresholds g"
  by (simp add: addEvent_def Let_def)

lemma thresholds_fireEvent: "thresholds (fireEvent now ty msg g) = thresholds g"
  by (simp add: fireEvent_def shouldFireEvent_def thresholds_addEvent)

section \<open>The unix timestamp\<close>

lemma leapYear_spec: "leapYear y = spec_leapYear y"
  by (auto simp: leapYear_def spec_leapYear_def dvd_eq_mod_eq_0)

lemma dvd_400_100: "400 dvd (n::nat) \<Longrightarrow> 100 dvd n"
  by (rule dvd_trans[of 100 400]) simp_all

lemma dvd_100_4: "100 dvd (n::nat) \<Longrightarrow> 4 dvd n"
  by (rule dvd_trans[of 4 100]) simp_all

lemma spec_leapDaysThrough_Suc:
  "spec_leapDaysThrough (Suc n) = spec_leapDaysThrough n + (if spec_leapYear (Suc n) then 1 else 0)"
proof -
  define q4 q100 q400 where "q4 = n div 4" and "q100 = n div 100" and "q400 = n div 400"
  have a: "q100 \<le> q4" unfolding q4_def q100_def by (rule div_le_mono2) simp_all
  have d4: "Suc n div 4 = q4 + (if 4 dvd Suc n then 1 else 0)"
    unfolding q4_def by (simp add: div_Suc dvd_eq_mod_eq_0)
  have d100: "Suc n div 100 = q100 + (if 100 dvd Suc n then 1 else 0)"
    unfolding q100_def by (simp add: div_Suc dvd_eq_mod_eq_0)
  have d400: "Suc n div 400 = q400 + (if 400 dvd Suc n then 1 else 0)"
    unfolding q400_def by (simp add: div_Suc dvd_eq_mod_eq_0)
  have L: "spec_leapDaysThrough n = q4 - q100 + q400"
    by (simp add: spec_leapDaysThrough_def q4_def q100_def q400_def)
  have L': "spec_leapDaysThrough (Suc n) = Suc n div 4 - Suc n div 100 + Suc n div 400"
    by (simp add: spec_leapDaysThrough_def)
  consider (a) "400 dvd Suc n" | (b) "\<not> 400 dvd Suc n" "100 dvd Suc n"
    | (c) "\<not> 100 dvd Suc n" "4 dvd Suc n" | (d) "\<not> 4 dvd Suc n"
    by blast
  then show ?thesis
  proof cases
    case a
    then have "100 dvd Suc n" "4 dvd Suc n" by (auto dest: dvd_400_100 dvd_100_4)
    with a show ?thesis unfolding L L' d4 d100 d400 spec_leapYear_def using \<open>q100 \<le> q4\<close> by simp
  next
    case b
    then have "4 dvd Suc n" by (auto dest: dvd_100_4)
    with b show ?thesis unfolding L L' d4 d100 d400 spec_leapYear_def using \<open>q100 \<le> q4\<close> by simp
  next
    case c
    then have "\<not> 400 dvd Suc n" by (auto dest: dvd_400_100)
    with c show ?thesis unfolding L L' d4 d100 d400 spec_leapYear_def using \<open>q100 \<le> q4\<close> by simp
  next
    case d
    then have "\<not> 400 dvd Suc n" "\<not> 100 dvd Suc n" by (auto dest: dvd_400_100 dvd_100_4)
    with d show ?thesis unfolding L L' d4 d100 d400 spec_leapYear_def using \<open>q100 \<le> q4\<close> by simp
  qed
qed


lemma spec_leapDaysThrough_mono: "a \<le> b \<Longrightarrow> spec_leapDaysThrough a \<le> spec_leapDaysThrough b"
  by (induction b) (auto simp: spec_leapDaysThrough_Suc le_Suc_eq)

lemma fold_years_nat:
  "a \<le> b \<Longrightarrow> 1 \<le> a \<Longrightarrow>
   fold (\<lambda>y days. days + (if leapYear y then 366 else 365)) [a ..< b] (acc :: nat)
       + spec_leapDaysThrough (a - 1)
     = acc + 365 * (b - a) + spec_leapDaysThrough (b - 1)"
proof (induction b)
  case 0
  then show ?case by simp
next
  case (Suc b)
  show ?case
  proof (cases "a = Suc b")
    case True
    then show ?thesis by simp
  next
    case False
    with Suc.prems have ab: "a \<le> b" by simp
    from ab Suc.prems obtain b' where b': "b = Suc b'" by (cases b) auto
    have d: "Suc b - a = Suc (b - a)" using ab by simp
    have step: "[a ..< Suc b] = [a ..< b] @ [b]" using ab by simp
    have L: "spec_leapDaysThrough (Suc b - 1)
               = spec_leapDaysThrough (b - 1) + (if spec_leapYear b then 1 else 0)"
      using spec_leapDaysThrough_Suc[of b'] by (simp add: b')
    show ?thesis
      unfolding step d L using Suc.IH[OF ab Suc.prems(2)]
      by (simp add: leapYear_spec)
  qed
qed

lemma fold_of_nat_word:
  "fold (\<lambda>y days. days + of_nat (f y)) xs (of_nat n :: u32)
     = of_nat (fold (\<lambda>y days. days + f y) xs n)"
  by (induction xs arbitrary: n) (simp_all flip: of_nat_add)

lemma addYears_eq:
  assumes "1970 \<le> unat yr"
  shows "addYears yr 0
           = of_nat (365 * (unat yr - 1970)
                     + (spec_leapDaysThrough (unat yr - 1) - spec_leapDaysThrough 1969))"
proof -
  let ?f = "\<lambda>y. if leapYear y then 366 else (365 :: nat)"
  have e: "(\<lambda>y (days :: u32). days + (if leapYear y then 366 else 365))
             = (\<lambda>y days. days + of_nat (?f y))"
    by (intro ext) simp
  have w: "addYears yr 0 = of_nat (fold (\<lambda>y days. days + ?f y) [1970 ..< unat yr] 0)"
    unfolding addYears_def e using fold_of_nat_word[of ?f _ 0] by simp
  have n: "fold (\<lambda>y days. days + ?f y) [1970 ..< unat yr] 0 + spec_leapDaysThrough 1969
     = 365 * (unat yr - 1970) + spec_leapDaysThrough (unat yr - 1)"
    using fold_years_nat[OF assms, of 0] by simp
  have "fold (\<lambda>y days. days + ?f y) [1970 ..< unat yr] 0
     = 365 * (unat yr - 1970) + (spec_leapDaysThrough (unat yr - 1) - spec_leapDaysThrough 1969)"
    using n spec_leapDaysThrough_mono[of 1969 "unat yr - 1"] assms by linarith
  with w show ?thesis by simp
qed

lemma month_cases:
  "1 \<le> (m::nat) \<Longrightarrow> m \<le> 12 \<Longrightarrow>
   m = 1 \<or> m = 2 \<or> m = 3 \<or> m = 4 \<or> m = 5 \<or> m = 6 \<or> m = 7 \<or> m = 8 \<or> m = 9 \<or> m = 10
     \<or> m = 11 \<or> m = 12"
  by (auto simp: numeral_eq_Suc le_Suc_eq)

lemma addMonths_eq:
  assumes "1 \<le> unat mon" "unat mon \<le> 12"
  shows "addMonths yr mon days
           = days + of_nat (spec_daysBeforeMonth ! (unat mon - 1)
                            + (if spec_leapYear (unat yr) \<and> 2 < unat mon then 1 else 0))"
  using month_cases[OF assms]
  unfolding addMonths_def daysInMonth_def spec_daysBeforeMonth_def leapYear_spec
  by (elim disjE) (simp_all add: upt_conv_Cons Let_def)

lemma spec_daysBeforeMonth_le:
  assumes "1 \<le> m" "m \<le> 12"
  shows "spec_daysBeforeMonth ! (m - 1) \<le> 334"
  using month_cases[OF assms] unfolding spec_daysBeforeMonth_def
  by (elim disjE) simp_all

lemma spec_monthLength_le: "spec_monthLength y m \<le> 31"
  by (simp add: spec_monthLength_def)

lemma calcUnixTime_eq:
  assumes "1970 \<le> unat yr" "1 \<le> unat mon" "unat mon \<le> 12" "1 \<le> unat d"
  shows "calcUnixTime yr mon d h mi s =
           Some (of_nat (86400 * spec_daysFromEpoch (unat yr) (unat mon) (unat d)
                         + 3600 * unat h + 60 * unat mi + unat s))"
proof -
  have d1: "(ucast d :: u32) - 1 = of_nat (unat d - 1)"
    using assms(4) by (simp add: of_nat_diff)
  have days: "addMonths yr mon (addYears yr 0) + (ucast d - 1)
                = of_nat (spec_daysFromEpoch (unat yr) (unat mon) (unat d))"
    unfolding addYears_eq[OF assms(1)] addMonths_eq[OF assms(2,3)] d1 spec_daysFromEpoch_def
    by simp
  show ?thesis
    using assms(3) unfolding calcUnixTime_def Let_def days by simp
qed

lemma spec_daysFromEpoch_bound:
  assumes "1970 \<le> y" "y \<le> 2105" "1 \<le> m" "m \<le> 12" "d \<le> 31"
  shows "spec_daysFromEpoch y m d \<le> 49673"
proof -
  have "spec_leapDaysThrough (y - 1) \<le> spec_leapDaysThrough 2104"
    using assms by (intro spec_leapDaysThrough_mono) simp
  moreover have "spec_leapDaysThrough 2104 = 510"
    by (simp add: spec_leapDaysThrough_def)
  ultimately have "spec_leapDaysThrough (y - 1) - 477 \<le> 33" by simp
  moreover have "spec_leapDaysThrough 1969 = 477"
    by (simp add: spec_leapDaysThrough_def)
  moreover have "y - 1970 \<le> 135" using assms by simp
  then have "365 * (y - 1970) \<le> 365 * 135" by (rule mult_le_mono2)
  moreover have "d - 1 \<le> 30" using assms by simp
  moreover have "(if spec_leapYear y \<and> 2 < m then 1 else 0) \<le> (1::nat)" by simp
  moreover note spec_daysBeforeMonth_le[OF assms(3,4)]
  ultimately show ?thesis
    unfolding spec_daysFromEpoch_def by linarith
qed

lemma unixTime_bound:
  assumes "spec_validCalendar y m d h mi s" "y \<le> 2105"
  shows "86400 * spec_daysFromEpoch y m d + 3600 * h + 60 * mi + s < 2 ^ 32"
proof -
  have "d \<le> 31"
    using assms(1) spec_monthLength_le[of y m] unfolding spec_validCalendar_def by linarith
  then have "spec_daysFromEpoch y m d \<le> 49673"
    using assms unfolding spec_validCalendar_def by (intro spec_daysFromEpoch_bound) simp_all
  moreover have "h < 24" "mi < 60" "s < 60"
    using assms(1) unfolding spec_validCalendar_def by simp_all
  ultimately show ?thesis by simp
qed

text \<open>
  \<open>spec_daysFromEpoch\<close> is a day count: it is 0 on 1970-01-01 and grows by one from each
  day to the next, within a month, across the end of a month and across the end of a year.
\<close>

lemma spec_daysFromEpoch_epoch: "spec_daysFromEpoch 1970 1 1 = 0"
  by (simp add: spec_daysFromEpoch_def spec_daysBeforeMonth_def spec_leapYear_def)

lemma spec_daysFromEpoch_next_day:
  "spec_daysFromEpoch y m (Suc d) = spec_daysFromEpoch y m d + (if d = 0 then 0 else 1)"
  by (simp add: spec_daysFromEpoch_def)

lemma spec_daysFromEpoch_next_month:
  assumes "1 \<le> m" "m < 12"
  shows "spec_daysFromEpoch y (Suc m) 1 = spec_daysFromEpoch y m (spec_monthLength y m) + 1"
proof -
  from assms have "m = 1 \<or> m = 2 \<or> m = 3 \<or> m = 4 \<or> m = 5 \<or> m = 6 \<or> m = 7 \<or> m = 8 \<or> m = 9
     \<or> m = 10 \<or> m = 11 \<or> m = 12" by (intro month_cases) simp_all
  with assms(2) show ?thesis
    unfolding spec_daysFromEpoch_def spec_monthLength_def spec_daysBeforeMonth_def
    by (elim disjE) simp_all
qed

lemma spec_daysFromEpoch_next_year:
  assumes "1970 \<le> y"
  shows "spec_daysFromEpoch (Suc y) 1 1 = spec_daysFromEpoch y 12 31 + 1"
proof -
  obtain y' where y': "y = Suc y'" using assms by (cases y) auto
  have m: "spec_leapDaysThrough 1969 \<le> spec_leapDaysThrough y'"
    using assms y' by (intro spec_leapDaysThrough_mono) simp
  have d: "Suc y - 1970 = Suc (y - 1970)" using assms by simp
  show ?thesis
    unfolding spec_daysFromEpoch_def spec_daysBeforeMonth_def d
    using m by (simp add: y' spec_leapDaysThrough_Suc)
qed

lemma unixTime_updatePosition:
  "unixTime (gpsData (updatePosition now tiny g)) = unixTime (gpsData g)"
  by (simp add: updatePosition_def Let_def gpsData_fireEvent)

lemma unixTime_updateMotion:
  "unixTime (gpsData (updateMotion tiny g)) = unixTime (gpsData g)"
  by (simp add: updateMotion_def Let_def)

lemma unixTime_updateSatelliteCount:
  "unixTime (gpsData (updateSatelliteCount now g)) = unixTime (gpsData g)"
  by (simp add: updateSatelliteCount_def Let_def gpsData_fireEvent)

lemma unixTime_updateDOP:
  "unixTime (gpsData (updateDOP now tiny g)) = unixTime (gpsData g)"
  by (simp add: updateDOP_def Let_def gpsData_fireEvent)

lemma unixTime_updateFixQuality:
  "unixTime (gpsData (updateFixQuality g)) = unixTime (gpsData g)"
  by (simp add: updateFixQuality_def Let_def)

lemma updateTime_unixTime:
  assumes "time_isValid tiny" "date_isValid tiny"
    and "calcUnixTime (date_year tiny) (date_month tiny) (date_day tiny)
           (time_hour tiny) (time_minute tiny) (time_second tiny) = Some t"
  shows "\<exists>g'. updateTime now tiny g = Some g' \<and> unixTime (gpsData g') = t"
  using assms by (simp add: updateTime_def Let_def gpsData_fireEvent)

lemma updateGPSData_unixTime:
  assumes "time_isValid tiny" "date_isValid tiny"
    and "calcUnixTime (date_year tiny) (date_month tiny) (date_day tiny)
           (time_hour tiny) (time_minute tiny) (time_second tiny) = Some t"
  shows "\<exists>g'. updateGPSData now tiny g = Some g' \<and> unixTime (gpsData g') = t"
proof -
  obtain g2 where g2: "updateTime now tiny
      (g\<lparr>gpsData := (gpsData g)\<lparr>charsProcessed := tiny_charsProcessed tiny,
                      sentencesFailed := tiny_failedChecksum tiny,
                      totalSentences := tiny_passedChecksum tiny\<rparr>\<rparr>) = Some g2"
    and t: "unixTime (gpsData g2) = t"
    using updateTime_unixTime[OF assms] by blast
  show ?thesis
    unfolding updateGPSData_def Let_def g2
    by (simp add: t unixTime_updatePosition unixTime_updateMotion unixTime_updateSatelliteCount
          unixTime_updateDOP unixTime_updateFixQuality)
qed

lemma updateGPSData_unixTime_mod:
  assumes "time_isValid tiny" "date_isValid tiny"
    and "spec_validCalendar (unat (date_year tiny)) (unat (date_month tiny))
           (unat (date_day tiny)) (unat (time_hour tiny)) (unat (time_minute tiny))
           (unat (time_second tiny))"
  shows "\<exists>g'. updateGPSData now tiny g = Some g' \<and>
           unat (unixTime (gpsData g')) =
             (86400 * spec_daysFromEpoch (unat (date_year tiny)) (unat (date_month tiny))
                        (unat (date_day tiny))
              + 3600 * unat (time_hour tiny) + 60 * unat (time_minute tiny)
              + unat (time_second tiny)) mod 2 ^ 32"
proof -
  let ?N = "86400 * spec_daysFromEpoch (unat (date_year tiny)) (unat (date_month tiny))
                        (unat (date_day tiny))
              + 3600 * unat (time_hour tiny) + 60 * unat (time_minute tiny)
              + unat (time_second tiny)"
  have e: "calcUnixTime (date_year tiny) (date_month tiny) (date_day tiny)
             (time_hour tiny) (time_minute tiny) (time_second tiny) = Some (of_nat ?N)"
    using assms(3) unfolding spec_validCalendar_def by (intro calcUnixTime_eq) simp_all
  have m: "unat (of_nat ?N :: u32) = ?N mod 2 ^ 32"
    by (simp only: unat_of_nat) simp
  from updateGPSData_unixTime[OF assms(1,2) e, of now g] m show ?thesis
    by metis
qed

text \<open>
  Claim C6, as amended. For every valid calendar input (year from 1970, month 1 to 12, a
  day of that month, hour, minute and second in range) that the decoder reports with valid
  time and date, the snapshot's unix timestamp after \<open>updateGPSData\<close> is 86400 times the
  Gregorian day count from 1970-01-01, plus 3600 hour plus 60 minute plus second, reduced
  modulo \<open>2 ^ 32\<close> (the timestamp is a \<open>uint32_t\<close>); for every year up to 2105 it is that
  number itself.
\<close>

theorem unixTime_gregorian:
  assumes "time_isValid tiny" "date_isValid tiny"
    and "spec_validCalendar (unat (date_year tiny)) (unat (date_month tiny))
           (unat (date_day tiny)) (unat (time_hour tiny)) (unat (time_minute tiny))
           (unat (time_second tiny))"
  shows "\<exists>g'. updateGPSData now tiny g = Some g' \<and>
           unat (unixTime (gpsData g')) =
             (86400 * spec_daysFromEpoch (unat (date_year tiny)) (unat (date_month tiny))
                        (unat (date_day tiny))
              + 3600 * unat (time_hour tiny) + 60 * unat (time_minute tiny)
              + unat (time_second tiny)) mod 2 ^ 32 \<and>
           (unat (date_year tiny) \<le> 2105 \<longrightarrow>
            unat (unixTime (gpsData g')) =
              86400 * spec_daysFromEpoch (unat (date_year tiny)) (unat (date_month tiny))
                        (unat (date_day tiny))
              + 3600 * unat (time_hour tiny) + 60 * unat (time_minute tiny)
              + unat (time_second tiny))"
proof -
  obtain g' where g': "updateGPSData now tiny g = Some g'"
    and u: "unat (unixTime (gpsData g')) =
             (86400 * spec_daysFromEpoch (unat (date_year tiny)) (unat (date_month tiny))
                        (unat (date_day tiny))
              + 3600 * unat (time_hour tiny) + 60 * unat (time_minute tiny)
              + unat (time_second tiny)) mod 2 ^ 32"
    using updateGPSData_unixTime_mod[OF assms] by blast
  show ?thesis
    using g' u unixTime_bound[OF assms(3)] by auto
qed

lemma tinyAt_fields:
  "time_isValid (tinyAt y m d h mi s)" "date_isValid (tinyAt y m d h mi s)"
  "date_year (tinyAt y m d h mi s) = y" "date_month (tinyAt y m d h mi s) = m"
  "date_day (tinyAt y m d h mi s) = d" "time_hour (tinyAt y m d h mi s) = h"
  "time_minute (tinyAt y m d h mi s) = mi" "time_second (tinyAt y m d h mi s) = s"
  by (simp_all add: tinyAt_def)

lemma spec_valid_2024: "spec_validCalendar 2024 3 15 12 30 45"
  by (simp add: spec_validCalendar_def spec_monthLength_def)

lemma spec_valid_2106: "spec_validCalendar 2106 2 7 6 28 16"
  by (simp add: spec_validCalendar_def spec_monthLength_def spec_leapYear_def)

lemma spec_days_2024: "spec_daysFromEpoch 2024 3 15 = 19797"
  by (simp add: spec_daysFromEpoch_def spec_leapDaysThrough_def spec_daysBeforeMonth_def
        spec_leapYear_def)

lemma spec_days_2106: "spec_daysFromEpoch 2106 2 7 = 49710"
  by (simp add: spec_daysFromEpoch_def spec_leapDaysThrough_def spec_daysBeforeMonth_def
        spec_leapYear_def)

theorem unixTime_gregorian_witness:
  "time_isValid (tinyAt 2024 3 15 12 30 45) \<and> date_isValid (tinyAt 2024 3 15 12 30 45)
   \<and> spec_validCalendar 2024 3 15 12 30 45
   \<and> (\<exists>g'. updateGPSData 60000 (tinyAt 2024 3 15 12 30 45) scenarioGPS = Some g'
            \<and> unat (unixTime (gpsData g')) = 1710505845)"
  using unixTime_gregorian[of "tinyAt 2024 3 15 12 30 45" 60000 scenarioGPS] spec_valid_2024
  by (simp add: tinyAt_fields spec_days_2024)

text \<open>
  Claim C6 as stated fails from 2106-02-07 06:28:16 on: the date is valid, the claimed
  value is \<open>2 ^ 32\<close>, and the snapshot's timestamp is 0.
\<close>

theorem unixTime_wraps_in_2106:
  "time_isValid (tinyAt 2106 2 7 6 28 16) \<and> date_isValid (tinyAt 2106 2 7 6 28 16)
   \<and> spec_validCalendar 2106 2 7 6 28 16
   \<and> 86400 * spec_daysFromEpoch 2106 2 7 + 3600 * 6 + 60 * 28 + 16 = (4294967296 :: nat)
   \<and> (\<exists>g'. updateGPSData 60000 (tinyAt 2106 2 7 6 28 16) scenarioGPS = Some g'
            \<and> unat (unixTime (gpsData g')) = 0)"
  using updateGPSData_unixTime_mod[of "tinyAt 2106 2 7 6 28 16" 60000 scenarioGPS] spec_valid_2106
  by (simp add: tinyAt_fields spec_days_2106)

section \<open>The health scores\<close>

lemma health_updateAlerts:
  "satelliteScore (health (updateAlerts now g)) = satelliteScore (health g)"
  "hdopScore (health (updateAlerts now g)) = hdopScore (health g)"
  "snrScore (health (updateAlerts now g)) = snrScore (health g)"
  "fixAgeScore (health (updateAlerts now g)) = fixAgeScore (health g)"
  "fixModeScore (health (updateAlerts now g)) = fixModeScore (health g)"
  "overallScore (health (updateAlerts now g)) = overallScore (health g)"
  by (simp_all add: updateAlerts_def raiseAlert_def Let_def)

lemma calculateHealth_scores:
  "satelliteScore (health (calculateHealth now g)) = calculateSatelliteScore g"
  "hdopScore (health (calculateHealth now g)) = calculateHDOPScore g"
  "snrScore (health (calculateHealth now g)) = calculateSNRScore g"
  "fixAgeScore (health (calculateHealth now g)) = calculateFixAgeScore g"
  "fixModeScore (health (calculateHealth now g)) = calculateFixModeScore g"
  "overallScore (health (calculateHealth now g)) =
     word_of_int ((uint (calculateSatelliteScore g) * 30 + uint (calculateHDOPScore g) * 25
                   + uint (calculateSNRScore g) * 20 + uint (calculateFixAgeScore g) * 15
                   + uint (calculateFixModeScore g) * 10) div 100)"
  by (simp_all add: calculateHealth_def Let_def health_updateAlerts
        HEALTH_WEIGHT_SATELLITES_def HEALTH_WEIGHT_HDOP_def HEALTH_WEIGHT_SNR_def
        HEALTH_WEIGHT_FIX_AGE_def HEALTH_WEIGHT_FIX_MODE_def)

text \<open>
  Claim C5, as amended. In the scenario (10 satellites in use, HDOP 1.5, average SNR 38
  over the tracked satellites with nonzero SNR, fix age 500 ms, 3D fix) the health engine
  computes the component scores (80, 80, 80, 100, 100), and the overall score is the
  weighted sum 8500 divided by 100, which is 85.
\<close>

theorem health_scenario_scores:
  assumes "satellites (gpsData g) = 10" and "hdop (gpsData g) = 3 / 2"
    and "getAverageSNR 0 g = 38" and "updateAge (gpsData g) = 500"
    and "fixMode (gpsData g) = 3"
  shows "satelliteScore (health (calculateHealth now g)) = 80
       \<and> hdopScore (health (calculateHealth now g)) = 80
       \<and> snrScore (health (calculateHealth now g)) = 80
       \<and> fixAgeScore (health (calculateHealth now g)) = 100
       \<and> fixModeScore (health (calculateHealth now g)) = 100
       \<and> overallScore (health (calculateHealth now g)) = 85"
  using assms
  by (simp add: calculateHealth_scores calculateSatelliteScore_def calculateHDOPScore_def
        calculateSNRScore_def calculateFixAgeScore_def calculateFixModeScore_def)

lemma scenario_sats:
  "take (count (satTracking scenarioGPS)) (sats (satTracking scenarioGPS))
     = map scenarioSatellite [1, 2, 3, 4, 5, 6, 7, 8, 9, 10]"
  by (simp add: scenarioGPS_def)

lemma scenario_snr: "getAverageSNR 0 scenarioGPS = 38"
  unfolding getAverageSNR_def scenario_sats
  by (simp add: snrSumCount_def scenarioSatellite_def)

lemma scenario_inputs:
  "satellites (gpsData scenarioGPS) = 10" "hdop (gpsData scenarioGPS) = 3 / 2"
  "updateAge (gpsData scenarioGPS) = 500" "fixMode (gpsData scenarioGPS) = 3"
  by (simp_all add: scenarioGPS_def scenarioData_def)

theorem health_scenario_scores_witness:
  "satellites (gpsData scenarioGPS) = 10 \<and> hdop (gpsData scenarioGPS) = 3 / 2
   \<and> getAverageSNR 0 scenarioGPS = 38 \<and> updateAge (gpsData scenarioGPS) = 500
   \<and> fixMode (gpsData scenarioGPS) = 3
   \<and> overallScore (health (calculateHealth 60000 scenarioGPS)) = 85"
  using health_scenario_scores[OF scenario_inputs(1,2) scenario_snr scenario_inputs(3,4), of 60000]
    scenario_inputs scenario_snr
  by simp

text \<open>
  The scenario of claim C5 at a concrete state: the component scores are as claimed, the
  overall score is not 84.
\<close>

theorem health_scenario_not_84:
  "satellites (gpsData scenarioGPS) = 10 \<and> hdop (gpsData scenarioGPS) = 3 / 2
   \<and> getAverageSNR 0 scenarioGPS = 38 \<and> updateAge (gpsData scenarioGPS) = 500
   \<and> fixMode (gpsData scenarioGPS) = 3
   \<and> satelliteScore (health (calculateHealth 60000 scenarioGPS)) = 80
   \<and> hdopScore (health (calculateHealth 60000 scenarioGPS)) = 80
   \<and> snrScore (health (calculateHealth 60000 scenarioGPS)) = 80
   \<and> fixAgeScore (health (calculateHealth 60000 scenarioGPS)) = 100
   \<and> fixModeScore (health (calculateHealth 60000 scenarioGPS)) = 100
   \<and> overallScore (health (calculateHealth 60000 scenarioGPS)) \<noteq> 84"
  using scenario_inputs scenario_snr
  by (simp add: calculateHealth_scores calculateSatelliteScore_def calculateHDOPScore_def
        calculateSNRScore_def calculateFixAgeScore_def calculateFixModeScore_def)

section \<open>The packet buffer\<close>

lemma poke_apply: "poke b i v m b' = (if b' = b then (m b)[i := v] else m b')"
  by (simp add: poke_def)

lemma poke_nth:
  "poke b i v m b ! j = (if j = i \<and> i < length (m b) then v else m b ! j)"
  by (cases "i < length (m b)") (simp_all add: poke_def nth_list_update list_update_beyond)

lemma poke_length: "length (poke b i v m b') = length (m b')"
  by (simp add: poke_def)

lemma poke_other: "b' \<noteq> b \<Longrightarrow> poke b i v m b' = m b'"
  by (simp add: poke_def)

lemma memcpy_fold_other:
  "b' \<noteq> b \<Longrightarrow> fold (\<lambda>k. poke b (i + k) (src ! k)) ks m b' = m b'"
  by (induction ks arbitrary: m) (simp_all add: poke_other)

lemma memcpy_fold_length:
  "length (fold (\<lambda>k. poke b (i + k) (src ! k)) ks m b') = length (m b')"
  by (induction ks arbitrary: m) (simp_all add: poke_length)

lemma memcpy_fold_nth:
  "j < length (m b) \<Longrightarrow>
   fold (\<lambda>k. poke b (i + k) (src ! k)) [0 ..< n] m b ! j
     = (if i \<le> j \<and> j < i + n then src ! (j - i) else m b ! j)"
proof (induction n)
  case 0
  then show ?case by auto
next
  case (Suc n)
  define A where "A = fold (\<lambda>k. poke b (i + k) (src ! k)) [0 ..< n] m"
  have len: "length (A b) = length (m b)"
    unfolding A_def by (rule memcpy_fold_length)
  have IH: "A b ! j = (if i \<le> j \<and> j < i + n then src ! (j - i) else m b ! j)"
    unfolding A_def using Suc by simp
  have step: "fold (\<lambda>k. poke b (i + k) (src ! k)) [0 ..< Suc n] m = poke b (i + n) (src ! n) A"
    unfolding A_def by simp
  show ?case
    unfolding step poke_nth len IH using Suc.prems by auto
qed

lemma memcpy_other: "b' \<noteq> b \<Longrightarrow> memcpy b i src m b' = m b'"
  by (simp add: memcpy_def memcpy_fold_other)

lemma memcpy_length: "length (memcpy b i src m b') = length (m b')"
  by (simp add: memcpy_def memcpy_fold_length)

lemma memcpy_nth:
  "j < length (m b) \<Longrightarrow>
   memcpy b i src m b ! j = (if i \<le> j \<and> j < i + length src then src ! (j - i) else m b ! j)"
  by (simp add: memcpy_def memcpy_fold_nth)

lemma writeNTPTimestamp_other: "b' \<noteq> b \<Longrightarrow> writeNTPTimestamp b off ts m b' = m b'"
  by (simp add: writeNTPTimestamp_def poke_apply)

lemma writeNTPTimestamp_length: "length (writeNTPTimestamp b off ts m b') = length (m b')"
  by (simp add: writeNTPTimestamp_def poke_apply)

lemma writeNTPTimestamp_nth:
  "j < off \<or> off + 8 \<le> j \<Longrightarrow> writeNTPTimestamp b off ts m b ! j = m b ! j"
  by (auto simp: writeNTPTimestamp_def poke_apply)


lemma take8_drop24:
  assumes "length xs = 48"
  shows "take 8 (drop 24 xs)
           = [xs ! 24, xs ! 25, xs ! 26, xs ! 27, xs ! 28, xs ! 29, xs ! 30, xs ! 31]"
proof -
  have d: "drop i xs = xs ! i # drop (Suc i) xs" if "i < 48" for i
    using that assms by (simp add: Cons_nth_drop_Suc)
  have "drop 24 xs = xs ! 24 # drop 25 xs" using d[of 24] by simp
  also have "drop 25 xs = xs ! 25 # drop 26 xs" using d[of 25] by simp
  also have "drop 26 xs = xs ! 26 # drop 27 xs" using d[of 26] by simp
  also have "drop 27 xs = xs ! 27 # drop 28 xs" using d[of 27] by simp
  also have "drop 28 xs = xs ! 28 # drop 29 xs" using d[of 28] by simp
  also have "drop 29 xs = xs ! 29 # drop 30 xs" using d[of 29] by simp
  also have "drop 30 xs = xs ! 30 # drop 31 xs" using d[of 30] by simp
  also have "drop 31 xs = xs ! 31 # drop 32 xs" using d[of 31] by simp
  finally show ?thesis by simp
qed

lemma build_alias_length:
  "length (mem (buildNTPPacket d PacketBuffer PacketBuffer r t s) PacketBuffer) = 48"
  unfolding buildNTPPacket_def
  by (simp add: Let_def split_def poke_length memcpy_length writeNTPTimestamp_length
        NTP_PACKET_SIZE_def)

lemma build_alias_poll:
  "mem (buildNTPPacket d PacketBuffer PacketBuffer r t s) PacketBuffer ! 2 = 4"
  unfolding buildNTPPacket_def
  by (simp add: Let_def split_def poke_nth poke_length memcpy_length memcpy_nth
        writeNTPTimestamp_length writeNTPTimestamp_nth NTP_PACKET_SIZE_def
        extractPollInterval_def)

lemma build_alias_originate_bytes:
  "mem (buildNTPPacket d PacketBuffer PacketBuffer r t s) PacketBuffer ! 24 = 0"
  "mem (buildNTPPacket d PacketBuffer PacketBuffer r t s) PacketBuffer ! 25 = 0"
  "mem (buildNTPPacket d PacketBuffer PacketBuffer r t s) PacketBuffer ! 26 = 0"
  "mem (buildNTPPacket d PacketBuffer PacketBuffer r t s) PacketBuffer ! 27 = 0"
  "mem (buildNTPPacket d PacketBuffer PacketBuffer r t s) PacketBuffer ! 28 = 0"
  "mem (buildNTPPacket d PacketBuffer PacketBuffer r t s) PacketBuffer ! 29 = 0"
  "mem (buildNTPPacket d PacketBuffer PacketBuffer r t s) PacketBuffer ! 30 = 0"
  "mem (buildNTPPacket d PacketBuffer PacketBuffer r t s) PacketBuffer ! 31 = 0"
  unfolding buildNTPPacket_def
  by (simp_all add: Let_def split_def poke_nth poke_length memcpy_length memcpy_nth
        writeNTPTimestamp_length writeNTPTimestamp_nth NTP_PACKET_SIZE_def)

lemma build_alias_originate:
  "take 8 (drop 24 (mem (buildNTPPacket d PacketBuffer PacketBuffer r t s) PacketBuffer))
     = [0, 0, 0, 0, 0, 0, 0, 0]"
  by (simp add: take8_drop24[OF build_alias_length] build_alias_originate_bytes)

lemma build_frame:
  "udp_sent (buildNTPPacket d p q r t s) = udp_sent s"
  "clients (buildNTPPacket d p q r t s) = clients s"
  "clientCount (buildNTPPacket d p q r t s) = clientCount s"
  "metrics (buildNTPPacket d p q r t s) = metrics s"
  "ntpConfig (buildNTPPacket d p q r t s) = ntpConfig s"
  "globalRateLimit (buildNTPPacket d p q r t s) = globalRateLimit s"
  by (simp_all add: buildNTPPacket_def microsToNTP_def Let_def split_def)

lemma cgr_mem:
  "checkGlobalRateLimit now (s\<lparr>mem := m\<rparr>)
     = (fst (checkGlobalRateLimit now s), (snd (checkGlobalRateLimit now s))\<lparr>mem := m\<rparr>)"
  by (simp add: checkGlobalRateLimit_def Let_def)

lemma cgr_frame:
  "ntpConfig (snd (checkGlobalRateLimit now s)) = ntpConfig s"
  "metrics (snd (checkGlobalRateLimit now s)) = metrics s"
  "clients (snd (checkGlobalRateLimit now s)) = clients s"
  "clientCount (snd (checkGlobalRateLimit now s)) = clientCount s"
  "mem (snd (checkGlobalRateLimit now s)) = mem s"
  "udp_sent (snd (checkGlobalRateLimit now s)) = udp_sent s"
  by (simp_all add: checkGlobalRateLimit_def Let_def)

lemma sendKissOfDeath_DENY:
  "sendKissOfDeath a p ''DENY'' s =
     s\<lparr>mem := (mem s)(PacketBuffer :=
                (replicate 48 0)[0 := 0xDC, 1 := 0, 12 := 68, 13 := 69, 14 := 78, 15 := 89]),
       udp_sent := udp_sent s @ [\<lparr>dg_ip = a, dg_port = p, dg_payload =
                (replicate 48 0)[0 := 0xDC, 1 := 0, 12 := 68, 13 := 69, 14 := 78, 15 := 89]\<rparr>],
       metrics := (metrics s)\<lparr>kodSent := kodSent (metrics s) + 1\<rparr>\<rparr>"
  by (simp add: sendKissOfDeath_def udp_send_def memcpy_def kissCode_def poke_def Let_def
        NTP_PACKET_SIZE_def upt_conv_Cons)

lemma sendKissOfDeath_RATE:
  "sendKissOfDeath a p ''RATE'' s =
     s\<lparr>mem := (mem s)(PacketBuffer :=
                (replicate 48 0)[0 := 0xDC, 1 := 0, 12 := 82, 13 := 65, 14 := 84, 15 := 69]),
       udp_sent := udp_sent s @ [\<lparr>dg_ip = a, dg_port = p, dg_payload =
                (replicate 48 0)[0 := 0xDC, 1 := 0, 12 := 82, 13 := 65, 14 := 84, 15 := 69]\<rparr>],
       metrics := (metrics s)\<lparr>kodSent := kodSent (metrics s) + 1\<rparr>\<rparr>"
  by (simp add: sendKissOfDeath_def udp_send_def memcpy_def kissCode_def poke_def Let_def
        NTP_PACKET_SIZE_def upt_conv_Cons)

lemma kiss_reference_id:
  "take 4 (drop 12 ((replicate 48 0)[0 := 0xDC, 1 := 0, 12 := 68, 13 := 69, 14 := 78, 15 := (89 :: u8)]))
     = kissCode ''DENY''"
  "take 4 (drop 12 ((replicate 48 0)[0 := 0xDC, 1 := 0, 12 := 82, 13 := 65, 14 := 84, 15 := (69 :: u8)]))
     = kissCode ''RATE''"
  by (simp_all add: kissCode_def numeral_eq_Suc drop_Cons' take_Cons')

section \<open>The request handler, branch by branch\<close>

lemma quality_iff:
  "isGPSQualitySufficient cfg d \<longleftrightarrow>
     timeValid d \<and> uint (cfg_minSatellites cfg) \<le> satellites d
     \<and> hdop d \<le> cfg_maxHDOP cfg \<and> updateAge d \<le> cfg_maxFixAge cfg"
  by (auto simp: isGPSQualitySufficient_def)

lemma handle_global_reject:
  assumes "length (dg_payload dg) = NTP_PACKET_SIZE"
    and "\<not> fst (checkGlobalRateLimit (millis_global clk) s)"
  shows "udp_sent (handleNTPRequests clk d (Some dg) s) = udp_sent s"
    and "clients (handleNTPRequests clk d (Some dg) s) = clients s"
    and "clientCount (handleNTPRequests clk d (Some dg) s) = clientCount s"
    and "metrics (handleNTPRequests clk d (Some dg) s)
           = (metrics s)\<lparr>rateLimitedRequests := rateLimitedRequests (metrics s) + 1\<rparr>"
  using assms
  by (simp_all add: handleNTPRequests_def Let_def split_def cgr_mem cgr_frame)

lemma handle_invalid:
  assumes "length (dg_payload dg) = NTP_PACKET_SIZE"
    and "fst (checkGlobalRateLimit (millis_global clk) s)"
    and "\<not> validateNTPRequest (dg_payload dg)"
  shows "udp_sent (handleNTPRequests clk d (Some dg) s) = udp_sent s"
    and "clients (handleNTPRequests clk d (Some dg) s) = clients s"
    and "clientCount (handleNTPRequests clk d (Some dg) s) = clientCount s"
    and "metrics (handleNTPRequests clk d (Some dg) s)
           = (metrics s)\<lparr>invalidRequests := invalidRequests (metrics s) + 1\<rparr>"
    and "globalRateLimit (handleNTPRequests clk d (Some dg) s)
           = globalRateLimit (snd (checkGlobalRateLimit (millis_global clk) s))"
  using assms
  by (simp_all add: handleNTPRequests_def Let_def split_def cgr_mem cgr_frame)

lemma handle_quality_denied:
  assumes "length (dg_payload dg) = NTP_PACKET_SIZE"
    and "fst (checkGlobalRateLimit (millis_global clk) s)"
    and "validateNTPRequest (dg_payload dg)"
    and "\<not> isGPSQualitySufficient (ntpConfig s) d"
  shows "udp_sent (handleNTPRequests clk d (Some dg) s)
           = udp_sent s @ [\<lparr>dg_ip = dg_ip dg, dg_port = dg_port dg, dg_payload =
               (replicate 48 0)[0 := 0xDC, 1 := 0, 12 := 68, 13 := 69, 14 := 78, 15 := 89]\<rparr>]"
    and "clients (handleNTPRequests clk d (Some dg) s) = clients s"
    and "clientCount (handleNTPRequests clk d (Some dg) s) = clientCount s"
    and "metrics (handleNTPRequests clk d (Some dg) s)
           = (metrics s)\<lparr>noGPSDropped := noGPSDropped (metrics s) + 1,
                           kodSent := kodSent (metrics s) + 1\<rparr>"
  using assms
  by (simp_all add: handleNTPRequests_def Let_def split_def cgr_mem cgr_frame
        sendKissOfDeath_DENY)

lemma cgr_consumes:
  "fst (checkGlobalRateLimit now s) \<Longrightarrow>
   requestsThisSecond (globalRateLimit (snd (checkGlobalRateLimit now s)))
     = (if now - lastSecondReset (globalRateLimit s) > 1000 then 0
        else requestsThisSecond (globalRateLimit s)) + 1"
  by (cases "now - lastSecondReset (globalRateLimit s) > 1000")
     (auto simp: checkGlobalRateLimit_def Let_def split: if_splits)

lemma first_index_Some:
  "first_index P xs = Some i \<Longrightarrow> i < length xs \<and> P (xs ! i)"
  by (induction xs arbitrary: i) (auto split: if_splits)

lemma findOrCreateClient_tracked:
  "first_index (\<lambda>c. ip c = a) (take (clientCount s) (clients s)) = Some i \<Longrightarrow>
   findOrCreateClient a s = (i, s)"
  by (simp add: findOrCreateClient_def)

lemma tracked_index:
  assumes "first_index (\<lambda>c. ip c = a) (take (clientCount s) (clients s)) = Some i"
  shows "i < length (clients s)" and "ip (clients s ! i) = a"
  using first_index_Some[OF assms] by auto

lemma checkClient_denial:
  assumes "findOrCreateClient a s = (i, s1)"
    and "now - lastRequest (clients s1 ! i) < perClientMinInterval (ntpConfig s1)"
  shows "checkClientRateLimit now nowStats a poll s =
           (False, s1\<lparr>clients := (clients s1)[i := (clients s1 ! i)\<lparr>
                      rateLimited := True,
                      aggressiveCount := aggressiveCount (clients s1 ! i) + 1,
                      aggressive := (aggressive (clients s1 ! i)
                                     \<or> aggressiveCount (clients s1 ! i) + 1 > 10)\<rparr>]\<rparr>)"
  using assms
  by (simp add: checkClientRateLimit_def Let_def NTP_AGGRESSIVE_THRESHOLD_def)

lemma checkClient_denies_iff:
  assumes "findOrCreateClient a s = (i, s1)"
  shows "\<not> fst (checkClientRateLimit now nowStats a poll s) \<longleftrightarrow>
           now - lastRequest (clients s1 ! i) < perClientMinInterval (ntpConfig s1)"
  using assms by (simp add: checkClientRateLimit_def Let_def)


lemma handle_rate_denied:
  assumes len: "length (dg_payload dg) = NTP_PACKET_SIZE"
    and glob: "fst (checkGlobalRateLimit (millis_global clk) s)"
    and val: "validateNTPRequest (dg_payload dg)"
    and qual: "isGPSQualitySufficient (ntpConfig s) d"
    and en: "rateLimitEnabled (ntpConfig s)"
    and tr: "first_index (\<lambda>c. ip c = dg_ip dg) (take (clientCount s) (clients s)) = Some i"
    and soon: "millis_client clk - lastRequest (clients s ! i) < perClientMinInterval (ntpConfig s)"
  shows "udp_sent (handleNTPRequests clk d (Some dg) s)
           = udp_sent s @ [\<lparr>dg_ip = dg_ip dg, dg_port = dg_port dg, dg_payload =
               (replicate 48 0)[0 := 0xDC, 1 := 0, 12 := 82, 13 := 65, 14 := 84, 15 := 69]\<rparr>]"
    and "clients (handleNTPRequests clk d (Some dg) s)
           = (clients s)[i := (clients s ! i)\<lparr>
                rateLimited := True,
                aggressiveCount := aggressiveCount (clients s ! i) + 1,
                aggressive := (aggressive (clients s ! i)
                               \<or> aggressiveCount (clients s ! i) + 1 > 10)\<rparr>]"
    and "clientCount (handleNTPRequests clk d (Some dg) s) = clientCount s"
    and "metrics (handleNTPRequests clk d (Some dg) s)
           = (metrics s)\<lparr>rateLimitedRequests := rateLimitedRequests (metrics s) + 1,
                           kodSent := kodSent (metrics s) + 1\<rparr>"
proof -
  let ?s2 = "(snd (checkGlobalRateLimit (millis_global clk) s))
               \<lparr>mem := (mem s)(PacketBuffer := dg_payload dg)\<rparr>"
  have f: "findOrCreateClient (dg_ip dg) ?s2 = (i, ?s2)"
    using tr by (intro findOrCreateClient_tracked) (simp add: cgr_frame)
  have c: "checkClientRateLimit (millis_client clk) (millis_stats clk) (dg_ip dg)
             (extractPollInterval (dg_payload dg)) ?s2 =
           (False, ?s2\<lparr>clients := (clients ?s2)[i := (clients ?s2 ! i)\<lparr>
                      rateLimited := True,
                      aggressiveCount := aggressiveCount (clients ?s2 ! i) + 1,
                      aggressive := (aggressive (clients ?s2 ! i)
                                     \<or> aggressiveCount (clients ?s2 ! i) + 1 > 10)\<rparr>]\<rparr>)"
    using soon by (intro checkClient_denial[OF f]) (simp add: cgr_frame)
  have h: "handleNTPRequests clk d (Some dg) s =
             sendKissOfDeath (dg_ip dg) (dg_port dg) ''RATE''
               ((snd (checkClientRateLimit (millis_client clk) (millis_stats clk) (dg_ip dg)
                        (extractPollInterval (dg_payload dg)) ?s2))
                 \<lparr>metrics := (metrics s)\<lparr>rateLimitedRequests :=
                                  rateLimitedRequests (metrics s) + 1\<rparr>\<rparr>)"
    using len glob val qual en
    by (simp add: handleNTPRequests_def Let_def split_def cgr_mem cgr_frame c)
  show "udp_sent (handleNTPRequests clk d (Some dg) s)
           = udp_sent s @ [\<lparr>dg_ip = dg_ip dg, dg_port = dg_port dg, dg_payload =
               (replicate 48 0)[0 := 0xDC, 1 := 0, 12 := 82, 13 := 65, 14 := 84, 15 := 69]\<rparr>]"
    unfolding h c by (simp add: sendKissOfDeath_RATE cgr_frame)
  show "clients (handleNTPRequests clk d (Some dg) s)
           = (clients s)[i := (clients s ! i)\<lparr>
                rateLimited := True,
                aggressiveCount := aggressiveCount (clients s ! i) + 1,
                aggressive := (aggressive (clients s ! i)
                               \<or> aggressiveCount (clients s ! i) + 1 > 10)\<rparr>]"
    unfolding h c by (simp add: sendKissOfDeath_RATE cgr_frame)
  show "clientCount (handleNTPRequests clk d (Some dg) s) = clientCount s"
    unfolding h c by (simp add: sendKissOfDeath_RATE cgr_frame)
  show "metrics (handleNTPRequests clk d (Some dg) s)
           = (metrics s)\<lparr>rateLimitedRequests := rateLimitedRequests (metrics s) + 1,
                           kodSent := kodSent (metrics s) + 1\<rparr>"
    unfolding h c by (simp add: sendKissOfDeath_RATE cgr_frame)
qed


lemma findOrCreateClient_frame:
  "udp_sent (snd (findOrCreateClient a s)) = udp_sent s"
  "mem (snd (findOrCreateClient a s)) = mem s"
  "ntpConfig (snd (findOrCreateClient a s)) = ntpConfig s"
  "validResponses (metrics (snd (findOrCreateClient a s))) = validResponses (metrics s)"
  by (simp_all add: findOrCreateClient_def Let_def split: option.splits)

lemma checkClient_frame:
  "udp_sent (snd (checkClientRateLimit now ns a p s)) = udp_sent s"
  "mem (snd (checkClientRateLimit now ns a p s)) = mem s"
  "ntpConfig (snd (checkClientRateLimit now ns a p s)) = ntpConfig s"
  "validResponses (metrics (snd (checkClientRateLimit now ns a p s))) = validResponses (metrics s)"
  by (simp_all add: checkClientRateLimit_def Let_def split_def findOrCreateClient_frame)

lemma checkClient_indep:
  assumes "clients s' = clients s" "clientCount s' = clientCount s" "ntpConfig s' = ntpConfig s"
  shows "fst (checkClientRateLimit now ns a p s') = fst (checkClientRateLimit now ns a p s)"
  using assms
  by (simp add: checkClientRateLimit_def findOrCreateClient_def Let_def split_def
        split: option.splits)

lemma recordResponse_frame:
  "udp_sent (recordResponse clk s) = udp_sent s"
  "validResponses (metrics (recordResponse clk s)) = validResponses (metrics s) + 1"
  by (simp_all add: recordResponse_def Let_def)

lemma sendNTPResponse_alias:
  "udp_sent (sendNTPResponse d a p PacketBuffer r t s)
     = udp_sent s @ [\<lparr>dg_ip = a, dg_port = p, dg_payload =
         mem (buildNTPPacket d PacketBuffer PacketBuffer r t s) PacketBuffer\<rparr>]"
  "metrics (sendNTPResponse d a p PacketBuffer r t s) = metrics s"
  by (simp_all add: sendNTPResponse_def udp_send_def build_frame build_alias_length
        NTP_PACKET_SIZE_def)

lemma handle_accepted:
  assumes len: "length (dg_payload dg) = NTP_PACKET_SIZE"
    and glob: "fst (checkGlobalRateLimit (millis_global clk) s)"
    and val: "validateNTPRequest (dg_payload dg)"
    and qual: "isGPSQualitySufficient (ntpConfig s) d"
    and ok: "\<not> rateLimitEnabled (ntpConfig s) \<or>
             fst (checkClientRateLimit (millis_client clk) (millis_stats clk) (dg_ip dg)
                    (extractPollInterval (dg_payload dg)) s)"
  shows "\<exists>P. udp_sent (handleNTPRequests clk d (Some dg) s)
                = udp_sent s @ [\<lparr>dg_ip = dg_ip dg, dg_port = dg_port dg, dg_payload = P\<rparr>]
             \<and> length P = 48 \<and> P ! 2 = 4
             \<and> take 8 (drop 24 P) = [0, 0, 0, 0, 0, 0, 0, 0]"
    and "validResponses (metrics (handleNTPRequests clk d (Some dg) s))
           = validResponses (metrics s) + 1"
proof -
  define s2 where "s2 = (snd (checkGlobalRateLimit (millis_global clk) s))
               \<lparr>mem := (mem s)(PacketBuffer := dg_payload dg)\<rparr>"
  define chk where "chk = checkClientRateLimit (millis_client clk) (millis_stats clk) (dg_ip dg)
                (extractPollInterval (dg_payload dg)) s2"
  define s3 where "s3 = (if rateLimitEnabled (ntpConfig s) then snd chk else s2)"
  have s2f: "ntpConfig s2 = ntpConfig s" "clients s2 = clients s" "clientCount s2 = clientCount s"
    "udp_sent s2 = udp_sent s" "metrics s2 = metrics s" "mem s2 PacketBuffer = dg_payload dg"
    by (simp_all add: s2_def cgr_frame)
  have g: "checkGlobalRateLimit (millis_global clk)
             (s\<lparr>mem := (mem s)(PacketBuffer := dg_payload dg)\<rparr>) = (True, s2)"
    using glob by (simp add: cgr_mem s2_def)
  have i: "fst chk = fst (checkClientRateLimit (millis_client clk) (millis_stats clk) (dg_ip dg)
                    (extractPollInterval (dg_payload dg)) s)"
    unfolding chk_def by (rule checkClient_indep) (simp_all add: s2f)
  have h: "handleNTPRequests clk d (Some dg) s =
             recordResponse clk (sendNTPResponse d (dg_ip dg) (dg_port dg) PacketBuffer
               (micros_receive clk) (micros_transmit clk) s3)"
  proof (cases "rateLimitEnabled (ntpConfig s)")
    case True
    then have ck: "chk = (True, s3)"
      using ok i by (cases chk) (auto simp: s3_def)
    show ?thesis
      unfolding handleNTPRequests_def using len val qual True
      by (simp add: Let_def g s2f ck[unfolded chk_def])
  next
    case False
    then have e: "s3 = s2" by (simp add: s3_def)
    show ?thesis
      unfolding handleNTPRequests_def using len val qual False
      by (simp add: Let_def g s2f e)
  qed
  have u: "udp_sent s3 = udp_sent s" "validResponses (metrics s3) = validResponses (metrics s)"
    by (simp_all add: s3_def chk_def checkClient_frame s2f)
  show "\<exists>P. udp_sent (handleNTPRequests clk d (Some dg) s)
                = udp_sent s @ [\<lparr>dg_ip = dg_ip dg, dg_port = dg_port dg, dg_payload = P\<rparr>]
             \<and> length P = 48 \<and> P ! 2 = 4
             \<and> take 8 (drop 24 P) = [0, 0, 0, 0, 0, 0, 0, 0]"
    by (simp add: h recordResponse_frame sendNTPResponse_alias u build_alias_length
          build_alias_poll build_alias_originate)
  show "validResponses (metrics (handleNTPRequests clk d (Some dg) s))
           = validResponses (metrics s) + 1"
    by (simp add: h recordResponse_frame sendNTPResponse_alias u)
qed

section \<open>The request handler on the example server\<close>

lemma example_request:
  "length clientRequest = NTP_PACKET_SIZE"
  "validateNTPRequest clientRequest"
  "dg_ip (datagramFrom a p) = a" "dg_port (datagramFrom a p) = 40000"
  "dg_payload (datagramFrom a p) = p"
  "extractPollInterval clientRequest = 6"
  "take 8 (drop 40 clientRequest) = [1, 2, 3, 4, 5, 6, 7, 8]"
  by (simp_all add: datagramFrom_def clientRequest_def NTP_PACKET_SIZE_def
        validateNTPRequest_def extractVersion_def extractPollInterval_def)

lemma example_malformed:
  "length malformedRequest = NTP_PACKET_SIZE"
  "\<not> validateNTPRequest malformedRequest"
  by (simp_all add: datagramFrom_def malformedRequest_def NTP_PACKET_SIZE_def
        validateNTPRequest_def extractVersion_def)

lemma example_clock:
  "millis_global (clockAt t) = t" "millis_client (clockAt t) = t" "millis_stats (clockAt t) = t"
  by (simp_all add: clockAt_def)

lemma example_quality:
  "isGPSQualitySufficient getDefaultConfig scenarioData"
  "\<not> isGPSQualitySufficient getDefaultConfig lowSatelliteData"
  "satellites lowSatelliteData = 3" "cfg_minSatellites getDefaultConfig = 4"
  by (simp_all add: isGPSQualitySufficient_def getDefaultConfig_def scenarioData_def
        lowSatelliteData_def)

lemma example_config:
  "rateLimitEnabled getDefaultConfig" "perClientMinInterval getDefaultConfig = 1000"
  "globalMaxRequestsPerSec getDefaultConfig = 1000" "maxClients getDefaultConfig = 50"
  by (simp_all add: getDefaultConfig_def)

lemma example_busy:
  "ntpConfig (busyServer n) = getDefaultConfig"
  "udp_sent (busyServer n) = []"
  "metrics (busyServer n) = zeroMetrics"
  "clientCount (busyServer n) = 0"
  "globalRateLimit (busyServer n)
     = \<lparr>requestsThisSecond = n, lastSecondReset = 59500, droppedThisSecond = 0\<rparr>"
  by (simp_all add: busyServer_def NTP_begin_def)

lemma example_global:
  "fst (checkGlobalRateLimit 60000 (busyServer 5))"
  "\<not> fst (checkGlobalRateLimit 60000 (busyServer 1000))"
  by (simp_all add: checkGlobalRateLimit_def example_busy getDefaultConfig_def Let_def)

lemma example_tracked:
  "ntpConfig (trackedServer n k) = getDefaultConfig"
  "udp_sent (trackedServer n k) = []"
  "metrics (trackedServer n k) = zeroMetrics"
  "globalRateLimit (trackedServer n k) = globalRateLimit (busyServer n)"
  "clientCount (trackedServer n k) = 1"
  "clients (trackedServer n k) = knownClient 59800 k # replicate 49 blankClient"
  by (simp_all add: trackedServer_def example_busy)

lemma example_tracked_global:
  "fst (checkGlobalRateLimit 60000 (trackedServer 5 k))"
  "\<not> fst (checkGlobalRateLimit 60000 (trackedServer 1000 k))"
  by (simp_all add: checkGlobalRateLimit_def example_tracked example_busy example_config
        Let_def)

lemma example_tracked_index:
  "first_index (\<lambda>c. ip c = 0xC0A80105)
     (take (clientCount (trackedServer n k)) (clients (trackedServer n k))) = Some 0"
  by (simp add: example_tracked knownClient_def)

lemma example_tracked_soon:
  "60000 - lastRequest (clients (trackedServer n k) ! 0)
     < perClientMinInterval (ntpConfig (trackedServer n k))"
  by (simp add: example_tracked knownClient_def example_config)

lemma example_new_client:
  "fst (checkClientRateLimit 60000 60000 0xC0A80105 6 (busyServer n))"
  by (simp add: checkClientRateLimit_def findOrCreateClient_def Let_def split_def
        example_busy getDefaultConfig_def busyServer_def NTP_begin_def initClient_def)


text \<open>
  Claim C1, as amended. A datagram of 48 bytes that the global rate limiter admits and that
  passes validation, arriving while the snapshot fails one of the four quality conditions
  (time valid, satellites at least the configured minimum, HDOP at most the configured
  maximum, fix age at most the configured maximum), is answered by exactly one datagram,
  a denial whose reference identifier (bytes 12 to 15) is \<open>DENY\<close>. The counters
  \<open>noGPSDropped\<close> and \<open>kodSent\<close> go up by one, no other metric changes (so no normal
  reply is counted), and the client table is not touched.
\<close>

theorem quality_gate_denial:
  assumes "length (dg_payload dg) = NTP_PACKET_SIZE"
    and "fst (checkGlobalRateLimit (millis_global clk) s)"
    and "validateNTPRequest (dg_payload dg)"
    and "\<not> (timeValid d \<and> uint (cfg_minSatellites (ntpConfig s)) \<le> satellites d
            \<and> hdop d \<le> cfg_maxHDOP (ntpConfig s) \<and> updateAge d \<le> cfg_maxFixAge (ntpConfig s))"
  shows "udp_sent (handleNTPRequests clk d (Some dg) s)
           = udp_sent s @ [\<lparr>dg_ip = dg_ip dg, dg_port = dg_port dg, dg_payload =
               (replicate 48 0)[0 := 0xDC, 1 := 0, 12 := 68, 13 := 69, 14 := 78, 15 := 89]\<rparr>]
       \<and> take 4 (drop 12 ((replicate 48 0)[0 := 0xDC, 1 := 0, 12 := 68, 13 := 69, 14 := 78, 15 := 89] :: u8 list)) = kissCode ''DENY''
       \<and> metrics (handleNTPRequests clk d (Some dg) s)
           = (metrics s)\<lparr>noGPSDropped := noGPSDropped (metrics s) + 1,
                           kodSent := kodSent (metrics s) + 1\<rparr>
       \<and> clients (handleNTPRequests clk d (Some dg) s) = clients s
       \<and> clientCount (handleNTPRequests clk d (Some dg) s) = clientCount s"
proof -
  have q: "\<not> isGPSQualitySufficient (ntpConfig s) d"
    using assms(4) by (simp add: quality_iff)
  show ?thesis
    using handle_quality_denied[OF assms(1,2,3) q] kiss_reference_id(1) by simp
qed

theorem quality_gate_denial_witness:
  "satellites lowSatelliteData = 3
   \<and> cfg_minSatellites (ntpConfig (busyServer 5)) = 4
   \<and> udp_sent (handleNTPRequests (clockAt 60000) lowSatelliteData
                 (Some (datagramFrom 0xC0A80105 clientRequest)) (busyServer 5))
       = [\<lparr>dg_ip = 0xC0A80105, dg_port = 40000, dg_payload = (replicate 48 0)[0 := 0xDC, 1 := 0, 12 := 68, 13 := 69, 14 := 78, 15 := 89]\<rparr>]
   \<and> noGPSDropped (metrics (handleNTPRequests (clockAt 60000) lowSatelliteData
                 (Some (datagramFrom 0xC0A80105 clientRequest)) (busyServer 5))) = 1"
  using quality_gate_denial[of "datagramFrom 0xC0A80105 clientRequest" "clockAt 60000"
          "busyServer 5" lowSatelliteData]
  by (simp add: example_request example_clock example_global example_busy example_quality
        zeroMetrics_def)

text \<open>
  Claim C1 as stated fails when the global limit of the current second is used up: a valid
  request arriving with 3 satellites against a minimum of 4 gets no reply at all, and the
  counter of quality drops stays 0.
\<close>

theorem quality_denial_dropped_by_global_limit:
  "length (dg_payload (datagramFrom 0xC0A80105 clientRequest)) = NTP_PACKET_SIZE
   \<and> validateNTPRequest (dg_payload (datagramFrom 0xC0A80105 clientRequest))
   \<and> satellites lowSatelliteData = 3
   \<and> cfg_minSatellites (ntpConfig (busyServer 1000)) = 4
   \<and> udp_sent (handleNTPRequests (clockAt 60000) lowSatelliteData
                 (Some (datagramFrom 0xC0A80105 clientRequest)) (busyServer 1000)) = []
   \<and> noGPSDropped (metrics (handleNTPRequests (clockAt 60000) lowSatelliteData
                 (Some (datagramFrom 0xC0A80105 clientRequest)) (busyServer 1000))) = 0"
  using handle_global_reject[of "datagramFrom 0xC0A80105 clientRequest" "clockAt 60000"
          "busyServer 1000" lowSatelliteData]
  by (simp add: example_request example_clock example_global example_busy example_quality
        zeroMetrics_def)

text \<open>
  Claim C2, as amended: the order of the code is global rate limit, then validation. For a
  datagram of 48 bytes, when the global limiter refuses, the datagram is counted as rate
  limited and nothing else happens, whatever its contents. When the limiter admits it and
  validation fails, the limiter's counter of the second has been advanced by the datagram,
  and it is counted as invalid.
\<close>

theorem global_limit_before_validation:
  assumes "length (dg_payload dg) = NTP_PACKET_SIZE"
  shows "(\<not> fst (checkGlobalRateLimit (millis_global clk) s) \<longrightarrow>
            metrics (handleNTPRequests clk d (Some dg) s)
              = (metrics s)\<lparr>rateLimitedRequests := rateLimitedRequests (metrics s) + 1\<rparr>
          \<and> udp_sent (handleNTPRequests clk d (Some dg) s) = udp_sent s
          \<and> clients (handleNTPRequests clk d (Some dg) s) = clients s
          \<and> clientCount (handleNTPRequests clk d (Some dg) s) = clientCount s)
       \<and> (fst (checkGlobalRateLimit (millis_global clk) s)
            \<and> \<not> validateNTPRequest (dg_payload dg) \<longrightarrow>
            requestsThisSecond (globalRateLimit (handleNTPRequests clk d (Some dg) s))
              = (if millis_global clk - lastSecondReset (globalRateLimit s) > 1000 then 0
                 else requestsThisSecond (globalRateLimit s)) + 1
          \<and> metrics (handleNTPRequests clk d (Some dg) s)
              = (metrics s)\<lparr>invalidRequests := invalidRequests (metrics s) + 1\<rparr>
          \<and> udp_sent (handleNTPRequests clk d (Some dg) s) = udp_sent s
          \<and> clients (handleNTPRequests clk d (Some dg) s) = clients s
          \<and> clientCount (handleNTPRequests clk d (Some dg) s) = clientCount s)"
  using handle_global_reject[OF assms] handle_invalid[OF assms] cgr_consumes
  by simp

theorem global_limit_before_validation_witness:
  "length (dg_payload (datagramFrom 0xC0A80105 malformedRequest)) = NTP_PACKET_SIZE
   \<and> requestsThisSecond (globalRateLimit (handleNTPRequests (clockAt 60000) scenarioData
         (Some (datagramFrom 0xC0A80105 malformedRequest)) (busyServer 5))) = 6
   \<and> invalidRequests (metrics (handleNTPRequests (clockAt 60000) scenarioData
         (Some (datagramFrom 0xC0A80105 malformedRequest)) (busyServer 5))) = 1
   \<and> udp_sent (handleNTPRequests (clockAt 60000) scenarioData
         (Some (datagramFrom 0xC0A80105 malformedRequest)) (busyServer 5)) = []"
  using global_limit_before_validation[of "datagramFrom 0xC0A80105 malformedRequest"
          "clockAt 60000" "busyServer 5" scenarioData]
  by (simp add: example_request example_malformed example_clock example_global example_busy
        zeroMetrics_def)

text \<open>
  Claim C2 as stated fails: a datagram that fails validation (version 1) raises the
  global counter of the second from 5 to 6, and when the limit of 1000 is used up the same
  datagram is counted as rate limited, not as invalid.
\<close>

theorem invalid_datagram_meets_global_limit:
  "\<not> validateNTPRequest (dg_payload (datagramFrom 0xC0A80105 malformedRequest))
   \<and> requestsThisSecond (globalRateLimit (busyServer 5)) = 5
   \<and> requestsThisSecond (globalRateLimit (handleNTPRequests (clockAt 60000) scenarioData
         (Some (datagramFrom 0xC0A80105 malformedRequest)) (busyServer 5))) = 6
   \<and> rateLimitedRequests (metrics (busyServer 1000)) = 0
   \<and> rateLimitedRequests (metrics (handleNTPRequests (clockAt 60000) scenarioData
         (Some (datagramFrom 0xC0A80105 malformedRequest)) (busyServer 1000))) = 1
   \<and> invalidRequests (metrics (handleNTPRequests (clockAt 60000) scenarioData
         (Some (datagramFrom 0xC0A80105 malformedRequest)) (busyServer 1000))) = 0"
  using handle_invalid(5)[of "datagramFrom 0xC0A80105 malformedRequest" "clockAt 60000"
          "busyServer 5" scenarioData]
    cgr_consumes[of 60000 "busyServer 5"]
    handle_global_reject(4)[of "datagramFrom 0xC0A80105 malformedRequest" "clockAt 60000"
          "busyServer 1000" scenarioData]
  by (simp add: example_request example_malformed example_clock example_global example_busy
        zeroMetrics_def)


text \<open>
  Claim C7, as amended. With per-client limiting enabled, a datagram of 48 bytes that the
  global limiter admits, that passes validation and the quality gate, from a source that
  is in the client table at index \<open>i\<close>, arriving sooner than the minimum interval after
  that entry's \<open>lastRequest\<close>, is answered by exactly one datagram, a denial whose
  reference identifier is \<open>RATE\<close>; no valid response is counted; the entry's 16-bit
  aggressive counter goes up by one modulo 65536, and the sticky flag is set once the new
  counter exceeds 10.
\<close>

theorem client_rate_denial:
  assumes "length (dg_payload dg) = NTP_PACKET_SIZE"
    and "fst (checkGlobalRateLimit (millis_global clk) s)"
    and "validateNTPRequest (dg_payload dg)"
    and "isGPSQualitySufficient (ntpConfig s) d"
    and "rateLimitEnabled (ntpConfig s)"
    and "first_index (\<lambda>c. ip c = dg_ip dg) (take (clientCount s) (clients s)) = Some i"
    and "millis_client clk - lastRequest (clients s ! i) < perClientMinInterval (ntpConfig s)"
  shows "udp_sent (handleNTPRequests clk d (Some dg) s)
           = udp_sent s @ [\<lparr>dg_ip = dg_ip dg, dg_port = dg_port dg, dg_payload =
               (replicate 48 0)[0 := 0xDC, 1 := 0, 12 := 82, 13 := 65, 14 := 84, 15 := 69]\<rparr>]
       \<and> take 4 (drop 12 ((replicate 48 0)[0 := 0xDC, 1 := 0, 12 := 82, 13 := 65, 14 := 84, 15 := 69] :: u8 list)) = kissCode ''RATE''
       \<and> validResponses (metrics (handleNTPRequests clk d (Some dg) s))
           = validResponses (metrics s)
       \<and> aggressiveCount (clients (handleNTPRequests clk d (Some dg) s) ! i)
           = aggressiveCount (clients s ! i) + 1
       \<and> unat (aggressiveCount (clients (handleNTPRequests clk d (Some dg) s) ! i))
           = (unat (aggressiveCount (clients s ! i)) + 1) mod 65536
       \<and> aggressive (clients (handleNTPRequests clk d (Some dg) s) ! i)
           = (aggressive (clients s ! i) \<or> 10 < aggressiveCount (clients s ! i) + 1)
       \<and> rateLimited (clients (handleNTPRequests clk d (Some dg) s) ! i)"
proof -
  note h = handle_rate_denied[OF assms]
  have i: "i < length (clients s)" using tracked_index(1)[OF assms(6)] .
  show ?thesis
    unfolding h using i kiss_reference_id(2) by (simp add: unat_word_ariths)
qed

theorem client_rate_denial_witness:
  "aggressiveCount (clients (trackedServer 5 10) ! 0) = 10
   \<and> udp_sent (handleNTPRequests (clockAt 60000) scenarioData
         (Some (datagramFrom 0xC0A80105 clientRequest)) (trackedServer 5 10))
       = [\<lparr>dg_ip = 0xC0A80105, dg_port = 40000, dg_payload = (replicate 48 0)[0 := 0xDC, 1 := 0, 12 := 82, 13 := 65, 14 := 84, 15 := 69]\<rparr>]
   \<and> aggressiveCount (clients (handleNTPRequests (clockAt 60000) scenarioData
         (Some (datagramFrom 0xC0A80105 clientRequest)) (trackedServer 5 10)) ! 0) = 11
   \<and> aggressive (clients (handleNTPRequests (clockAt 60000) scenarioData
         (Some (datagramFrom 0xC0A80105 clientRequest)) (trackedServer 5 10)) ! 0)"
proof -
  have 1: "length (dg_payload (datagramFrom 0xC0A80105 clientRequest)) = NTP_PACKET_SIZE"
    and 3: "validateNTPRequest (dg_payload (datagramFrom 0xC0A80105 clientRequest))"
    by (simp_all add: example_request)
  have 2: "fst (checkGlobalRateLimit (millis_global (clockAt 60000)) (trackedServer 5 10))"
    by (simp add: example_clock example_tracked_global)
  have 4: "isGPSQualitySufficient (ntpConfig (trackedServer 5 10)) scenarioData"
    and 5: "rateLimitEnabled (ntpConfig (trackedServer 5 10))"
    by (simp_all add: example_tracked example_quality example_config)
  have 6: "first_index (\<lambda>c. ip c = dg_ip (datagramFrom 0xC0A80105 clientRequest))
             (take (clientCount (trackedServer 5 10)) (clients (trackedServer 5 10))) = Some 0"
    using example_tracked_index[of 5 10] by (simp add: example_request)
  have 7: "millis_client (clockAt 60000) - lastRequest (clients (trackedServer 5 10) ! 0)
             < perClientMinInterval (ntpConfig (trackedServer 5 10))"
    using example_tracked_soon[of 5 10] by (simp add: example_clock)
  from client_rate_denial[OF 1 2 3 4 5 6 7] show ?thesis
    by (simp add: example_request example_tracked knownClient_def)
qed

text \<open>
  Claim C7 as stated fails in two ways. A tracked source whose counter stands at 65535 is
  denied and its counter becomes 0. And when the global limit is used up, a too-early
  request of a tracked source gets no reply at all and its counter stays as it is.
\<close>

theorem aggressive_counter_wraps_or_request_dropped:
  "aggressiveCount (clients (trackedServer 5 65535) ! 0) = 65535
   \<and> udp_sent (handleNTPRequests (clockAt 60000) scenarioData
         (Some (datagramFrom 0xC0A80105 clientRequest)) (trackedServer 5 65535))
       = [\<lparr>dg_ip = 0xC0A80105, dg_port = 40000, dg_payload = (replicate 48 0)[0 := 0xDC, 1 := 0, 12 := 82, 13 := 65, 14 := 84, 15 := 69]\<rparr>]
   \<and> aggressiveCount (clients (handleNTPRequests (clockAt 60000) scenarioData
         (Some (datagramFrom 0xC0A80105 clientRequest)) (trackedServer 5 65535)) ! 0) = 0
   \<and> aggressiveCount (clients (trackedServer 1000 3) ! 0) = 3
   \<and> udp_sent (handleNTPRequests (clockAt 60000) scenarioData
         (Some (datagramFrom 0xC0A80105 clientRequest)) (trackedServer 1000 3)) = []
   \<and> aggressiveCount (clients (handleNTPRequests (clockAt 60000) scenarioData
         (Some (datagramFrom 0xC0A80105 clientRequest)) (trackedServer 1000 3)) ! 0) = 3"
proof -
  have 1: "length (dg_payload (datagramFrom 0xC0A80105 clientRequest)) = NTP_PACKET_SIZE"
    and 3: "validateNTPRequest (dg_payload (datagramFrom 0xC0A80105 clientRequest))"
    by (simp_all add: example_request)
  have 2: "fst (checkGlobalRateLimit (millis_global (clockAt 60000)) (trackedServer 5 65535))"
    and r: "\<not> fst (checkGlobalRateLimit (millis_global (clockAt 60000)) (trackedServer 1000 3))"
    by (simp_all add: example_clock example_tracked_global)
  have 4: "isGPSQualitySufficient (ntpConfig (trackedServer 5 65535)) scenarioData"
    and 5: "rateLimitEnabled (ntpConfig (trackedServer 5 65535))"
    by (simp_all add: example_tracked example_quality example_config)
  have 6: "first_index (\<lambda>c. ip c = dg_ip (datagramFrom 0xC0A80105 clientRequest))
             (take (clientCount (trackedServer 5 65535)) (clients (trackedServer 5 65535)))
             = Some 0"
    using example_tracked_index[of 5 65535] by (simp add: example_request)
  have 7: "millis_client (clockAt 60000) - lastRequest (clients (trackedServer 5 65535) ! 0)
             < perClientMinInterval (ntpConfig (trackedServer 5 65535))"
    using example_tracked_soon[of 5 65535] by (simp add: example_clock)
  from handle_rate_denied(1,2)[OF 1 2 3 4 5 6 7]
    handle_global_reject(1,2)[OF 1 r, of scenarioData]
  show ?thesis
    by (simp add: example_request example_tracked knownClient_def)
qed

text \<open>
  Claim C10, as amended: for a source that is already in the client table. When the
  per-client check denies a request of such a source, the state changes only in that
  entry's \<open>rateLimited\<close>, \<open>aggressiveCount\<close> and \<open>aggressive\<close>; its address,
  \<open>lastRequest\<close>, \<open>requestCount\<close>, \<open>lastPollInterval\<close> and \<open>averageInterval\<close> are as
  before.
\<close>

theorem client_denial_frame:
  assumes "first_index (\<lambda>c. ip c = a) (take (clientCount s) (clients s)) = Some i"
    and "\<not> fst (checkClientRateLimit now nowStats a poll s)"
  shows "snd (checkClientRateLimit now nowStats a poll s)
           = s\<lparr>clients := (clients s)[i := (clients s ! i)\<lparr>
                  rateLimited := True,
                  aggressiveCount := aggressiveCount (clients s ! i) + 1,
                  aggressive := (aggressive (clients s ! i)
                                 \<or> aggressiveCount (clients s ! i) + 1 > 10)\<rparr>]\<rparr>
       \<and> ip (clients (snd (checkClientRateLimit now nowStats a poll s)) ! i)
           = ip (clients s ! i)
       \<and> lastRequest (clients (snd (checkClientRateLimit now nowStats a poll s)) ! i)
           = lastRequest (clients s ! i)
       \<and> requestCount (clients (snd (checkClientRateLimit now nowStats a poll s)) ! i)
           = requestCount (clients s ! i)
       \<and> lastPollInterval (clients (snd (checkClientRateLimit now nowStats a poll s)) ! i)
           = lastPollInterval (clients s ! i)
       \<and> averageInterval (clients (snd (checkClientRateLimit now nowStats a poll s)) ! i)
           = averageInterval (clients s ! i)"
proof -
  note f = findOrCreateClient_tracked[OF assms(1)]
  have soon: "now - lastRequest (clients s ! i) < perClientMinInterval (ntpConfig s)"
    using assms(2) checkClient_denies_iff[OF f] by simp
  have i: "i < length (clients s)" using tracked_index(1)[OF assms(1)] .
  show ?thesis
    unfolding checkClient_denial[OF f soon] using i by simp
qed

theorem client_denial_frame_witness:
  "\<not> fst (checkClientRateLimit 60000 60000 0xC0A80105 6 (trackedServer 5 10))
   \<and> lastRequest (clients (trackedServer 5 10) ! 0) = 59800
   \<and> lastRequest (clients (snd (checkClientRateLimit 60000 60000 0xC0A80105 6
                                   (trackedServer 5 10))) ! 0) = 59800
   \<and> aggressiveCount (clients (snd (checkClientRateLimit 60000 60000 0xC0A80105 6
                                   (trackedServer 5 10))) ! 0) = 11"
proof -
  note t = example_tracked_index[of 5 10]
  have d: "\<not> fst (checkClientRateLimit 60000 60000 0xC0A80105 6 (trackedServer 5 10))"
    unfolding checkClient_denies_iff[OF findOrCreateClient_tracked[OF t]]
    by (rule example_tracked_soon)
  from client_denial_frame[OF t d] d show ?thesis
    by (simp add: example_tracked knownClient_def)
qed

text \<open>
  Claim C10 as stated fails for a source that is not in the table yet. Here the table is
  full (entry 0 last served at 200 ms, entry 1 at 100 ms) and a new source asks 500 ms
  after start: the lookup replaces entry 1, the older one, the request is denied, and the
  replaced client's address, \<open>lastRequest\<close> and \<open>requestCount\<close> are gone, so more than the
  three fields of the claim has changed. Entry 0 is as before.
\<close>

theorem denial_of_new_source_evicts_a_client:
  "\<not> fst (checkClientRateLimit 500 500 0xC0A80107 6 fullServer)
   \<and> ip (clients fullServer ! 1) = 0xC0A80106
   \<and> lastRequest (clients fullServer ! 1) = 100
   \<and> requestCount (clients fullServer ! 1) = 3
   \<and> ip (clients (snd (checkClientRateLimit 500 500 0xC0A80107 6 fullServer)) ! 1) = 0xC0A80107
   \<and> lastRequest (clients (snd (checkClientRateLimit 500 500 0xC0A80107 6 fullServer)) ! 1) = 0
   \<and> requestCount (clients (snd (checkClientRateLimit 500 500 0xC0A80107 6 fullServer)) ! 1) = 0
   \<and> clients (snd (checkClientRateLimit 500 500 0xC0A80107 6 fullServer)) ! 0
       = clients fullServer ! 0"
  by (simp add: checkClientRateLimit_def findOrCreateClient_def oldestIndex_def initClient_def
        fullServer_def NTP_begin_def getDefaultConfig_def knownClient_def Let_def split_def
        NTP_AGGRESSIVE_THRESHOLD_def upt_conv_Cons)

lemma example_accepted_request:
  "length (dg_payload (datagramFrom 0xC0A80105 clientRequest)) = NTP_PACKET_SIZE"
  "fst (checkGlobalRateLimit (millis_global (clockAt 60000)) (busyServer 5))"
  "validateNTPRequest (dg_payload (datagramFrom 0xC0A80105 clientRequest))"
  "isGPSQualitySufficient (ntpConfig (busyServer 5)) scenarioData"
  "\<not> rateLimitEnabled (ntpConfig (busyServer 5)) \<or>
     fst (checkClientRateLimit (millis_client (clockAt 60000)) (millis_stats (clockAt 60000))
            (dg_ip (datagramFrom 0xC0A80105 clientRequest))
            (extractPollInterval (dg_payload (datagramFrom 0xC0A80105 clientRequest)))
            (busyServer 5))"
  by (simp_all add: example_request example_clock example_global example_busy example_quality
        example_new_client)

text \<open>
  Claim C8 fails in the code, for every request. \<open>handleNTPRequests\<close> passes
  \<open>packetBuffer\<close> as the request of \<open>sendNTPResponse\<close>, which builds the reply in the same
  \<open>packetBuffer\<close>; \<open>buildNTPPacket\<close> clears the buffer before it copies bytes 40 to 47 of
  the request. So every request that is accepted (a datagram of 48 bytes that passes the
  global limiter, validation, the quality gate and the per-client check) is counted as a
  valid response and answered by one datagram whose originate field (bytes 24 to 31) is
  all zero, whatever the request's transmit timestamp.
\<close>

theorem accepted_reply_originate_is_zero:
  assumes "length (dg_payload dg) = NTP_PACKET_SIZE"
    and "fst (checkGlobalRateLimit (millis_global clk) s)"
    and "validateNTPRequest (dg_payload dg)"
    and "isGPSQualitySufficient (ntpConfig s) d"
    and "\<not> rateLimitEnabled (ntpConfig s) \<or>
         fst (checkClientRateLimit (millis_client clk) (millis_stats clk) (dg_ip dg)
                (extractPollInterval (dg_payload dg)) s)"
  shows "validResponses (metrics (handleNTPRequests clk d (Some dg) s))
           = validResponses (metrics s) + 1
       \<and> (\<exists>P. udp_sent (handleNTPRequests clk d (Some dg) s)
                  = udp_sent s @ [\<lparr>dg_ip = dg_ip dg, dg_port = dg_port dg, dg_payload = P\<rparr>]
               \<and> length P = 48
               \<and> take 8 (drop 24 P) = [0, 0, 0, 0, 0, 0, 0, 0])"
  using handle_accepted[OF assms] by blast

text \<open>
  A request whose transmit timestamp is 1, 2, ..., 8 is accepted and answered by a reply
  whose originate field is all zero.
\<close>

theorem accepted_reply_originate_is_zero_witness:
  "take 8 (drop 40 (dg_payload (datagramFrom 0xC0A80105 clientRequest)))
     = [1, 2, 3, 4, 5, 6, 7, 8]
   \<and> validResponses (metrics (handleNTPRequests (clockAt 60000) scenarioData
         (Some (datagramFrom 0xC0A80105 clientRequest)) (busyServer 5))) = 1
   \<and> (\<exists>P. udp_sent (handleNTPRequests (clockAt 60000) scenarioData
         (Some (datagramFrom 0xC0A80105 clientRequest)) (busyServer 5))
             = [\<lparr>dg_ip = 0xC0A80105, dg_port = 40000, dg_payload = P\<rparr>]
           \<and> take 8 (drop 24 P) = [0, 0, 0, 0, 0, 0, 0, 0])"
  using accepted_reply_originate_is_zero[OF example_accepted_request]
  by (auto simp: example_request example_busy zeroMetrics_def)

text \<open>
  Claim C9 fails in the code, for the same reason: \<open>extractPollInterval\<close> reads byte 2 of
  the buffer after it has been cleared, so it clamps 0 to 4. Every accepted request is
  answered with poll exponent 4.
\<close>

theorem accepted_reply_poll_is_4:
  assumes "length (dg_payload dg) = NTP_PACKET_SIZE"
    and "fst (checkGlobalRateLimit (millis_global clk) s)"
    and "validateNTPRequest (dg_payload dg)"
    and "isGPSQualitySufficient (ntpConfig s) d"
    and "\<not> rateLimitEnabled (ntpConfig s) \<or>
         fst (checkClientRateLimit (millis_client clk) (millis_stats clk) (dg_ip dg)
                (extractPollInterval (dg_payload dg)) s)"
  shows "validResponses (metrics (handleNTPRequests clk d (Some dg) s))
           = validResponses (metrics s) + 1
       \<and> (\<exists>P. udp_sent (handleNTPRequests clk d (Some dg) s)
                  = udp_sent s @ [\<lparr>dg_ip = dg_ip dg, dg_port = dg_port dg, dg_payload = P\<rparr>]
               \<and> length P = 48
               \<and> P ! 2 = 4)"
  using handle_accepted[OF assms] by blast

text \<open>
  A request with poll exponent 6, which lies in the range 4 to 10, is accepted and
  answered with poll exponent 4.
\<close>

theorem accepted_reply_poll_is_4_witness:
  "extractPollInterval (dg_payload (datagramFrom 0xC0A80105 clientRequest)) = 6
   \<and> validResponses (metrics (handleNTPRequests (clockAt 60000) scenarioData
         (Some (datagramFrom 0xC0A80105 clientRequest)) (busyServer 5))) = 1
   \<and> (\<exists>P. udp_sent (handleNTPRequests (clockAt 60000) scenarioData
         (Some (datagramFrom 0xC0A80105 clientRequest)) (busyServer 5))
             = [\<lparr>dg_ip = 0xC0A80105, dg_port = 40000, dg_payload = P\<rparr>]
           \<and> P ! 2 = 4)"
  using accepted_reply_poll_is_4[OF example_accepted_request]
  by (auto simp: example_request example_busy zeroMetrics_def)

section \<open>The satellite table: marking the satellites in use\<close>

lemma gsvSatellites_4:
  "gsvSatellites 4 = gsvSatellites (Suc (Suc (Suc (Suc 0))))"
  by (simp add: numeral_eq_Suc)

lemma gsaSatellites_12:
  "gsaSatellites 12 =
     gsaSatellites (Suc (Suc (Suc (Suc (Suc (Suc (Suc (Suc (Suc (Suc (Suc (Suc 0))))))))))))"
  by (simp add: numeral_eq_Suc)

lemma gsa_loop_tokens:
  "gsaSatellites 12 c ''10,12,,,,,,,,,,,2.5,1.3,2.1,1*35'' t
     = (fold (\<lambda>p. markInUse p c) [10, 12, 2, 1, 2, 1, 35] t, [])"
  by (simp add: gsaSatellites_12 strtok_def atoi_def isspace_def isdigit_def digit_val_def)

lemma gsv_loop_tokens:
  "gsvSatellites 4 ''10,45,120,38,12,30,200,38*7A'' t
     = storeVisible 12 30 200 38 (storeVisible 10 45 120 38 t)"
  by (simp add: gsvSatellites_4 strtok_def atoi_def atoi_or_0_def isspace_def isdigit_def
        digit_val_def)

lemma replicate_numeral_Cons:
  "replicate (numeral n) x = x # replicate (pred_numeral n) x"
  by (simp add: numeral_eq_Suc)

lemma emptyTable_store:
  "storeVisible 12 30 200 38 (storeVisible 10 45 120 38 (satTracking emptyTableGPS))
     = (satTracking emptyTableGPS)\<lparr>
         sats := [\<lparr>prn = 10, constellation = 0, elevation = 45, azimuth = 120, snr = 38,
                   inUse = False, tracked = True\<rparr>,
                  \<lparr>prn = 12, constellation = 0, elevation = 30, azimuth = 200, snr = 38,
                   inUse = False, tracked = True\<rparr>] @ replicate 30 emptySlot,
         count := 2\<rparr>"
  by (simp add: emptyTableGPS_def storeVisible_def findByPRN_def findFreeSlot_def
        writeVisible_def MAX_SATELLITES_def emptySlot_def replicate_numeral_Cons)

lemma gsv_dispatch: "indexOf_found gsvLine ''GPGSV''"
  by (simp add: gsvLine_def)

lemma gsa_dispatch:
  "\<not> indexOf_found gsaLine ''GPGSV''" "\<not> indexOf_found gsaLine ''GLGSV''"
  "\<not> indexOf_found gsaLine ''GAGSV''" "\<not> indexOf_found gsaLine ''GBGSV''"
  "\<not> indexOf_found gsaLine ''GNGSV''" "\<not> indexOf_found gsaLine ''GPGSA''"
  "indexOf_found gsaLine ''GNGSA''"
  by (simp_all add: gsaLine_def)

lemma gsv_parse:
  "satTracking (parseGSVSentence now gsvLine c g)
     = (storeVisible 12 30 200 38 (storeVisible 10 45 120 38 (satTracking g)))\<lparr>lastUpdate := now\<rparr>"
  by (simp add: parseGSVSentence_def gsvLine_def strncpy127_def strtok_def gsv_loop_tokens)

lemma gsa_mark:
  "satTracking (markSatellitesInUse gsaLine c g)
     = fold (\<lambda>p. markInUse p c) [10, 12, 2, 1, 2, 1, 35] (satTracking g)"
  by (simp add: markSatellitesInUse_def gsaLine_def strncpy127_def strtok_def gsa_loop_tokens
        readDOP_def Let_def split_def)

lemma gsa_parse:
  "parseGNGSASentence gsaLine g
     = Some (markSatellitesInUse gsaLine 1 (g\<lparr>satTracking := clearInUse (satTracking g)\<rparr>))"
  by (simp add: parseGNGSASentence_def gsaLine_def strncpy127_def Let_def atoi_def
        isspace_def isdigit_def digit_val_def)

lemma gsv_step:
  "\<exists>g1. parseNMEASentence 1000 gsvLine emptyTableGPS = Some g1 \<and> satTracking g1 = gsvTable"
  using emptyTable_store
  by (simp add: parseNMEASentence_def gsv_dispatch gsv_parse Let_def gsvTable_def
        emptyTableGPS_def scenarioGPS_def)

lemma gsa_on_table:
  "map (\<lambda>s. (uint (prn s), inUse s))
     (take (count (fold (\<lambda>p. markInUse p 1) [10, 12, 2, 1, 2, 1, 35] (clearInUse gsvTable)))
        (sats (fold (\<lambda>p. markInUse p 1) [10, 12, 2, 1, 2, 1, 35] (clearInUse gsvTable))))
     = [(10, True), (12, True), (2, True), (1, True), (35, True)]"
  by (simp add: markInUse_def findByPRN_def clearInUse_def gsvTable_def MAX_SATELLITES_def
        replicate_numeral_Cons emptySlot_def)

lemma gsa_step:
  "satTracking g1 = gsvTable \<Longrightarrow>
   \<exists>g2. parseNMEASentence 2000 gsaLine g1 = Some g2
        \<and> satTracking g2 = fold (\<lambda>p. markInUse p 1) [10, 12, 2, 1, 2, 1, 35] (clearInUse gsvTable)"
  by (simp add: parseNMEASentence_def gsa_dispatch gsa_parse gsa_mark Let_def)

lemma gsa_fields:
  "spec_fields [] gsaLine
     = [''$GNGSA'', ''A'', ''3'', ''10'', ''12'', [], [], [], [], [], [], [], [], [], [],
        ''2.5'', ''1.3'', ''2.1'', ''1'', ''35'']"
  by (simp add: gsaLine_def)

lemma gsa_listed: "spec_listedIds gsaLine = [10, 12]"
  by (simp add: spec_listedIds_def gsa_fields atoi_def isspace_def isdigit_def digit_val_def)

text \<open>
  Claim C3 fails in the code. \<open>strtok\<close> never returns an empty token, so the loop of
  \<open>markSatellitesInUse\<close> that reads "up to 12" identifiers does not stop at the twelfth
  field: with ten of the twelve fields empty it goes on through PDOP, HDOP, VDOP, the
  system id and the checksum and marks their integer parts as satellites in use. After a
  visibility sentence for the satellites 10 and 12 and an in-use sentence with system id 1
  that lists 10 and 12, the table holds five entries in use: 10, 12, 2, 1 and 35.
\<close>

theorem in_use_marks_unlisted_identifiers:
  "drop 15 (spec_fields [] gsaLine) = [''2.5'', ''1.3'', ''2.1'', ''1'', ''35'']
   \<and> spec_listedIds gsaLine = [10, 12]
   \<and> (\<exists>g1 g2. parseNMEASentence 1000 gsvLine emptyTableGPS = Some g1
          \<and> parseNMEASentence 2000 gsaLine g1 = Some g2
          \<and> map (\<lambda>s. (uint (prn s), inUse s))
                (take (count (satTracking g2)) (sats (satTracking g2)))
              = [(10, True), (12, True), (2, True), (1, True), (35, True)])"
proof -
  obtain g1 where 1: "parseNMEASentence 1000 gsvLine emptyTableGPS = Some g1"
    and t1: "satTracking g1 = gsvTable"
    using gsv_step by blast
  obtain g2 where 2: "parseNMEASentence 2000 gsaLine g1 = Some g2"
    and t2: "satTracking g2
               = fold (\<lambda>p. markInUse p 1) [10, 12, 2, 1, 2, 1, 35] (clearInUse gsvTable)"
    using gsa_step[OF t1] by blast
  have 3: "map (\<lambda>s. (uint (prn s), inUse s))
             (take (count (satTracking g2)) (sats (satTracking g2)))
           = [(10, True), (12, True), (2, True), (1, True), (35, True)]"
    unfolding t2 by (rule gsa_on_table)
  have 4: "drop 15 (spec_fields [] gsaLine) = [''2.5'', ''1.3'', ''2.1'', ''1'', ''35'']"
    by (simp add: gsa_fields)
  show ?thesis
    by (intro conjI exI[of _ g1] exI[of _ g2]) (rule 4 gsa_listed 1 2 3)+
qed

section \<open>The satellite table: ageing\<close>

lemma keepsTracked_refl: "keepsTracked t t"
  by (simp add: keepsTracked_def)

lemma keepsTracked_trans: "keepsTracked a b \<Longrightarrow> keepsTracked b c \<Longrightarrow> keepsTracked a c"
  by (simp add: keepsTracked_def)

lemma keepsTracked_sats: "sats t' = sats t \<Longrightarrow> keepsTracked t t'"
  by (simp add: keepsTracked_def)

lemma tracked_update:
  "tracked v \<Longrightarrow> j < length xs \<Longrightarrow> tracked (xs ! j) \<Longrightarrow> tracked (xs[i := v] ! j)"
  by (cases "i = j") simp_all

lemma keepsTracked_update:
  "tracked v \<Longrightarrow> sats t' = (sats t)[i := v] \<Longrightarrow> keepsTracked t t'"
  by (simp add: keepsTracked_def tracked_update)

lemma writeVisible_keeps: "keepsTracked t (writeVisible i p el az sn t)"
  by (rule keepsTracked_update[where i = i]) (simp_all add: writeVisible_def)

lemma storeVisible_keeps: "keepsTracked t (storeVisible p el az sn t)"
proof -
  have c: "keepsTracked t (t\<lparr>count := k\<rparr>)" for k by (simp add: keepsTracked_def)
  show ?thesis
    unfolding storeVisible_def
    by (auto split: option.splits
          intro: writeVisible_keeps keepsTracked_refl keepsTracked_trans[OF c writeVisible_keeps])
qed

lemma markInUse_keeps: "keepsTracked t (markInUse p c t)"
  unfolding markInUse_def
  by (auto split: option.splits simp: keepsTracked_def tracked_update)

lemma clearInUse_keeps: "keepsTracked t (clearInUse t)"
proof -
  have "map tracked (map (\<lambda>s. s\<lparr>inUse := False\<rparr>) (take (count t) (sats t)) @ drop (count t) (sats t))
          = map tracked (take (count t) (sats t)) @ map tracked (drop (count t) (sats t))"
    by (simp add: comp_def)
  also have "\<dots> = map tracked (take (count t) (sats t) @ drop (count t) (sats t))"
    by (simp only: map_append)
  also have "\<dots> = map tracked (sats t)"
    by (simp only: append_take_drop_id)
  finally have m: "map tracked (sats (clearInUse t)) = map tracked (sats t)"
    by (simp add: clearInUse_def)
  have l: "length (sats (clearInUse t)) = length (sats t)"
    using arg_cong[OF m, of length] by simp
  have "tracked (sats (clearInUse t) ! i) = tracked (sats t ! i)" if "i < length (sats t)" for i
    using arg_cong[OF m, of "\<lambda>xs. xs ! i"] that l by simp
  with l show ?thesis by (simp add: keepsTracked_def)
qed

lemma gsvSatellites_keeps: "keepsTracked t (gsvSatellites n rest t)"
proof (induction n arbitrary: rest t)
  case 0
  show ?case by (simp add: keepsTracked_refl)
next
  case (Suc n)
  show ?case
    by (auto simp: keepsTracked_refl split: prod.splits option.splits
          intro: keepsTracked_trans[OF storeVisible_keeps Suc.IH])
qed

lemma gsaSatellites_keeps: "keepsTracked t (fst (gsaSatellites n c rest t))"
proof (induction n arbitrary: rest t)
  case 0
  show ?case by (simp add: keepsTracked_refl)
next
  case (Suc n)
  show ?case
    by (auto simp: Suc.IH split: prod.splits option.splits
          intro: keepsTracked_trans[OF markInUse_keeps Suc.IH])
qed

lemma parseGSVSentence_keeps:
  "keepsTracked (satTracking g) (satTracking (parseGSVSentence now sentence c g))"
proof -
  have u: "keepsTracked t (t'\<lparr>lastUpdate := k\<rparr>)" if "keepsTracked t t'" for t t' k
    using that by (simp add: keepsTracked_def)
  show ?thesis
    unfolding parseGSVSentence_def
    by (auto simp: keepsTracked_refl split: prod.splits option.splits
          intro: u gsvSatellites_keeps)
qed

lemma parseGNGSVSentence_keeps:
  "keepsTracked (satTracking g) (satTracking (parseGNGSVSentence now sentence g))"
  unfolding parseGNGSVSentence_def
  by (auto simp: keepsTracked_refl Let_def parseGSVSentence_keeps split: prod.splits option.splits)

lemma markSatellitesInUse_keeps:
  "keepsTracked (satTracking g) (satTracking (markSatellitesInUse sentence c g))"
proof -
  have "keepsTracked (satTracking g) (fst (gsaSatellites 12 c rest (satTracking g)))" for rest
    by (rule gsaSatellites_keeps)
  then show ?thesis
    unfolding markSatellitesInUse_def
    by (auto simp: keepsTracked_refl Let_def split_def split: prod.splits option.splits)
qed

lemma parseGNGSASentence_keeps:
  "parseGNGSASentence sentence g = Some g' \<Longrightarrow> keepsTracked (satTracking g) (satTracking g')"
proof -
  have m: "keepsTracked (satTracking g)
             (satTracking (markSatellitesInUse sentence c (g\<lparr>satTracking := clearInUse (satTracking g)\<rparr>)))"
    for c
  proof -
    have x: "keepsTracked (clearInUse (satTracking g))
               (satTracking (markSatellitesInUse sentence c
                  (g\<lparr>satTracking := clearInUse (satTracking g)\<rparr>)))"
      using markSatellitesInUse_keeps[of "g\<lparr>satTracking := clearInUse (satTracking g)\<rparr>" sentence c]
      by simp
    show ?thesis by (rule keepsTracked_trans[OF clearInUse_keeps x])
  qed
  show "parseGNGSASentence sentence g = Some g' \<Longrightarrow> ?thesis"
    unfolding parseGNGSASentence_def
    by (auto simp: keepsTracked_refl Let_def m markSatellitesInUse_keeps
          split: option.splits if_splits)
qed

lemma parseNMEASentence_keeps:
  assumes "parseNMEASentence now sentence g = Some g'"
  shows "keepsTracked (satTracking g) (satTracking g')"
proof -
  have k: "keepsTracked (satTracking g) (satTracking (f (g\<lparr>config := c\<rparr>)))"
    if "\<And>h. keepsTracked (satTracking h) (satTracking (f h))" for f c
    using that[of "g\<lparr>config := c\<rparr>"] by simp
  have a: "keepsTracked (satTracking g) (satTracking h')"
    if "parseGNGSASentence sentence (g\<lparr>config := c\<rparr>) = Some h'" for c h'
    using parseGNGSASentence_keeps[OF that] by simp
  show ?thesis
    using assms unfolding parseNMEASentence_def Let_def parseGPGSASentence_def
    by (auto simp: keepsTracked_refl k[of "parseGSVSentence now sentence c" for c, OF parseGSVSentence_keeps]
          k[of "parseGNGSVSentence now sentence", OF parseGNGSVSentence_keeps]
          k[of "markSatellitesInUse sentence 1", OF markSatellitesInUse_keeps]
          parseGSVSentence_keeps parseGNGSVSentence_keeps markSatellitesInUse_keeps
          dest!: a parseGNGSASentence_keeps split: if_splits)
qed

lemma processChar_keeps:
  assumes "processChar now c g = Some g'"
  shows "keepsTracked (satTracking g) (satTracking g')"
proof -
  have k: "keepsTracked (satTracking g) (satTracking h')"
    if "parseNMEASentence now s h = Some h'" and "satTracking h = satTracking g" for s h h'
    using parseNMEASentence_keeps[OF that(1)] that(2) by simp
  show ?thesis
    using assms unfolding processChar_def Let_def
    by (auto simp: keepsTracked_refl satTracking_addEvent split: if_splits
          elim!: k)
qed

lemma readSerial_keeps:
  "readSerial now cs g = Some g' \<Longrightarrow> keepsTracked (satTracking g) (satTracking g')"
proof (induction cs arbitrary: g)
  case Nil
  then show ?case by (simp add: keepsTracked_refl)
next
  case (Cons c cs)
  then obtain g1 where 1: "processChar now c g = Some g1" and 2: "readSerial now cs g1 = Some g'"
    by (auto split: option.splits)
  show ?case
    by (rule keepsTracked_trans[OF processChar_keeps[OF 1] Cons.IH[OF 2]])
qed

lemma satTracking_updateTime:
  "updateTime now tiny g = Some g' \<Longrightarrow> satTracking g' = satTracking g"
  by (auto simp: updateTime_def Let_def satTracking_fireEvent split: if_splits option.splits)

lemma satTracking_updatePosition: "satTracking (updatePosition now tiny g) = satTracking g"
  by (simp add: updatePosition_def Let_def satTracking_fireEvent)

lemma satTracking_updateMotion: "satTracking (updateMotion tiny g) = satTracking g"
  by (simp add: updateMotion_def Let_def)

lemma satTracking_updateSatelliteCount:
  "satTracking (updateSatelliteCount now g) = satTracking g"
  by (simp add: updateSatelliteCount_def Let_def satTracking_fireEvent)

lemma satTracking_updateDOP: "satTracking (updateDOP now tiny g) = satTracking g"
  by (simp add: updateDOP_def Let_def satTracking_fireEvent)

lemma satTracking_updateFixQuality: "satTracking (updateFixQuality g) = satTracking g"
  by (simp add: updateFixQuality_def Let_def)

lemma satTracking_updateGPSData:
  "updateGPSData now tiny g = Some g' \<Longrightarrow> satTracking g' = satTracking g"
  by (auto simp: updateGPSData_def Let_def satTracking_updatePosition satTracking_updateMotion
        satTracking_updateSatelliteCount satTracking_updateDOP satTracking_updateFixQuality
        split: option.splits if_splits dest!: satTracking_updateTime)

lemma sats_countSatellite: "sats (countSatellite s t) = sats t"
  by (simp add: countSatellite_def Let_def)

lemma sats_fold_countSatellite: "sats (fold countSatellite xs t) = sats t"
  by (induction xs arbitrary: t) (simp_all add: sats_countSatellite)

lemma sats_updateConstellationCounts:
  "sats (satTracking (updateConstellationCounts g)) = sats (satTracking g)"
  by (simp add: updateConstellationCounts_def Let_def sats_fold_countSatellite)

lemma satTracking_addHistoricalPoint: "satTracking (addHistoricalPoint now g) = satTracking g"
  by (simp add: addHistoricalPoint_def Let_def split_def)

lemma satTracking_checkStaleness: "satTracking (checkStaleness now g) = satTracking g"
  by (simp add: checkStaleness_def Let_def satTracking_fireEvent)

lemma satTracking_checkHeartbeat: "satTracking (checkHeartbeat now g) = satTracking g"
  by (simp add: checkHeartbeat_def Let_def shouldFireEvent_def satTracking_addEvent
        split: prod.splits bool.splits)

lemma satTracking_updateAlerts: "satTracking (updateAlerts now g) = satTracking g"
  by (simp add: updateAlerts_def raiseAlert_def Let_def)

lemma satTracking_calculateHealth: "satTracking (calculateHealth now g) = satTracking g"
  by (simp add: calculateHealth_def Let_def satTracking_updateAlerts)

lemma process_sats:
  assumes "process now available tiny g = Some g'"
  shows "\<exists>g1. readSerial now available g = Some g1
              \<and> sats (satTracking g') = sats (satTracking g1)"
  using assms unfolding process_def
  by (auto simp: satTracking_calculateHealth satTracking_checkHeartbeat
        satTracking_checkStaleness satTracking_addHistoricalPoint sats_updateConstellationCounts
        split: option.splits dest!: satTracking_updateGPSData)

lemma process_returns:
  assumes "unat (date_month tiny) \<le> 13"
  shows "\<exists>g'. process now [] tiny g = Some g'"
proof -
  have "\<exists>g2. updateGPSData now tiny g = Some g2"
    using assms
    by (simp add: updateGPSData_def updateTime_def calcUnixTime_def Let_def)
  then show ?thesis by (auto simp: process_def)
qed

text \<open>
  Claim C4 fails in the code: no processing cycle ever clears a \<open>tracked\<close> flag. Whatever
  the time, the bytes read from the serial link and the decoder's values, an entry that
  was tracked before \<open>process\<close> is tracked after it. \<open>cleanupStaleSatellites\<close>, the only
  function that ages the table out, is called from nowhere.
\<close>

theorem process_never_ages_out:
  assumes "process now available tiny g = Some g'"
  shows "length (sats (satTracking g')) = length (sats (satTracking g))
       \<and> (\<forall>i < length (sats (satTracking g)).
            tracked (sats (satTracking g) ! i) \<longrightarrow> tracked (sats (satTracking g') ! i))"
proof -
  obtain g1 where 1: "readSerial now available g = Some g1"
    and 2: "sats (satTracking g') = sats (satTracking g1)"
    using process_sats[OF assms] by blast
  show ?thesis
    using readSerial_keeps[OF 1] unfolding keepsTracked_def 2 .
qed

theorem process_never_ages_out_witness:
  "60000 - lastUpdate (satTracking staleGPS) = 50000
   \<and> tracked (sats (satTracking staleGPS) ! 0)
   \<and> (\<exists>g'. process 60000 [] (tinyAt 2024 3 15 12 30 45) staleGPS = Some g'
            \<and> tracked (sats (satTracking g') ! 0))
   \<and> \<not> tracked (sats (satTracking (cleanupStaleSatellites 60000 staleGPS)) ! 0)"
proof -
  obtain g' where p: "process 60000 [] (tinyAt 2024 3 15 12 30 45) staleGPS = Some g'"
    using process_returns[of "tinyAt 2024 3 15 12 30 45" 60000 staleGPS]
    by (auto simp: tinyAt_fields)
  have s: "60000 - lastUpdate (satTracking staleGPS) = 50000"
    "tracked (sats (satTracking staleGPS) ! 0)"
    "0 < length (sats (satTracking staleGPS))"
    by (simp_all add: staleGPS_def scenarioGPS_def scenarioSatellite_def)
  have c: "\<not> tracked (sats (satTracking (cleanupStaleSatellites 60000 staleGPS)) ! 0)"
    by (simp add: cleanupStaleSatellites_def clearSatelliteTracking_def staleGPS_def
          scenarioGPS_def scenarioSatellite_def MAX_SATELLITES_def)
  from process_never_ages_out[OF p] s have "tracked (sats (satTracking g') ! 0)"
    by blast
  with p s c show ?thesis by blast
qed

end
